theory Spec2Isabelle
  imports Main
begin

section \<open>JavaScript string and array primitives used by the action\<close>

text \<open>
  Strings are \<^typ>\<open>string\<close>: one \<^typ>\<open>char\<close> per code unit, so the model
  covers code units below 256. The functions below are the library calls the action
  makes on strings and arrays, with their ECMAScript meaning.
\<close>

definition startsWith :: "string \<Rightarrow> string \<Rightarrow> bool" where
  \<comment> \<open>\<open>s.startsWith(p)\<close>\<close>
  "startsWith s p = (take (length p) s = p)"

definition substring :: "string \<Rightarrow> nat \<Rightarrow> string" where
  \<comment> \<open>\<open>s.substring(n)\<close>: from index \<open>n\<close> (clamped to the length) to the end\<close>
  "substring s n = drop n s"

fun str_includes :: "string \<Rightarrow> string \<Rightarrow> bool" where
  \<comment> \<open>\<open>s.includes(needle)\<close>: the needle occurs at some position of \<open>s\<close>\<close>
  "str_includes [] needle = (needle = [])"
| "str_includes (c # cs) needle = (if startsWith (c # cs) needle then True else str_includes cs needle)"

fun join_with :: "string \<Rightarrow> string list \<Rightarrow> string" where
  \<comment> \<open>\<open>xs.join(sep)\<close>\<close>
  "join_with sep [] = []"
| "join_with sep [x] = x"
| "join_with sep (x # y # ys) = x @ sep @ join_with sep (y # ys)"

definition array_to_string :: "string list \<Rightarrow> string" where
  \<comment> \<open>an array inside a template literal: its elements joined by a comma\<close>
  "array_to_string xs = join_with '','' xs"

definition replace_dots :: "string \<Rightarrow> string" where
  \<comment> \<open>\<open>s.replace(/\./g, '/')\<close>\<close>
  "replace_dots s = map (\<lambda>c. if c = CHR ''.'' then CHR ''/'' else c) s"

fun split_on :: "char \<Rightarrow> string \<Rightarrow> string list" where
  \<comment> \<open>the segments of a string between occurrences of a separator\<close>
  "split_on sep [] = [[]]"
| "split_on sep (c # cs) =
     (if c = sep then [] # split_on sep cs
      else (case split_on sep cs of
              [] \<Rightarrow> [[c]]
            | seg # segs \<Rightarrow> (c # seg) # segs))"

section \<open>Node's \<open>path\<close> module, POSIX flavour\<close>

text \<open>
  \<open>path.parse\<close> and \<open>path.join\<close> belong to the Node runtime, not to the repository.
  They are modelled after Node's POSIX implementation: \<open>parse\<close> scans the path from the
  right, drops trailing separators, takes the last component as \<open>base\<close>, and splits the
  extension at the last dot of the component unless that dot is the component's first
  character or the component is \<open>..\<close>.
\<close>

record parsed_path =
  parsed_root :: string
  parsed_dir :: string
  parsed_base :: string
  parsed_ext :: string
  parsed_name :: string

definition strip_trailing_slashes :: "string \<Rightarrow> string" where
  "strip_trailing_slashes s = rev (dropWhile (\<lambda>c. c = CHR ''/'') (rev s))"

definition after_last :: "char \<Rightarrow> string \<Rightarrow> string" where
  \<comment> \<open>the characters to the right of the last occurrence of \<open>sep\<close> (all of them when there is none)\<close>
  "after_last sep s = rev (takeWhile (\<lambda>c. c \<noteq> sep) (rev s))"

definition path_parse :: "string \<Rightarrow> parsed_path" where
  "path_parse path =
     (let isAbsolute = (case path of [] \<Rightarrow> False | c # _ \<Rightarrow> c = CHR ''/'');
          start = (if isAbsolute then 1 else 0 :: nat);
          trimmed = strip_trailing_slashes (drop start path);
          endIdx = start + length trimmed;
          comp = after_last (CHR ''/'') trimmed;
          startPart = (if CHR ''/'' \<in> set trimmed then endIdx - length comp else 0);
          rootv = (if isAbsolute then ''/'' else []);
          dirv = (if 0 < startPart then take (startPart - 1) path
                  else if isAbsolute then ''/'' else [])
      in if trimmed = [] then
           \<lparr>parsed_root = rootv, parsed_dir = dirv, parsed_base = [], parsed_ext = [],
            parsed_name = []\<rparr>
         else
           (let hasDot = (CHR ''.'' \<in> set comp);
                startDot = (endIdx - length comp) + (length comp - length (after_last (CHR ''.'') comp) - 1);
                preDotState = (if startDot = endIdx - length comp then 0
                               else if hd comp = CHR ''.'' then 1 else - 1 :: int)
            in if hasDot = False then
                 \<lparr>parsed_root = rootv, parsed_dir = dirv, parsed_base = comp, parsed_ext = [],
                  parsed_name = comp\<rparr>
               else if preDotState = 0 then
                 \<lparr>parsed_root = rootv, parsed_dir = dirv, parsed_base = comp, parsed_ext = [],
                  parsed_name = comp\<rparr>
               else if preDotState = 1 \<and> startDot = endIdx - 1 \<and> startDot = startPart + 1 then
                 \<lparr>parsed_root = rootv, parsed_dir = dirv, parsed_base = comp, parsed_ext = [],
                  parsed_name = comp\<rparr>
               else
                 \<lparr>parsed_root = rootv, parsed_dir = dirv, parsed_base = comp,
                  parsed_ext = drop (startDot - (endIdx - length comp)) comp,
                  parsed_name = take (startDot - (endIdx - length comp)) comp\<rparr>))"

definition normalize_segment :: "bool \<Rightarrow> string list \<Rightarrow> string \<Rightarrow> string list" where
  \<comment> \<open>one segment of \<open>normalizeString\<close>: empty and \<open>.\<close> segments vanish, \<open>..\<close> removes the
      segment before it, or stays when the path may climb above its start\<close>
  "normalize_segment allowAboveRoot res seg =
     (if seg = [] then res
      else if seg = ''.'' then res
      else if seg = ''..'' then
        (if res \<noteq> [] \<and> last res \<noteq> ''..'' then butlast res
         else if allowAboveRoot then res @ [''..'']
         else res)
      else res @ [seg])"

definition path_normalize :: "string \<Rightarrow> string" where
  "path_normalize path =
     (if path = [] then ''.''
      else
        (let isAbsolute = (hd path = CHR ''/'');
             trailingSeparator = (last path = CHR ''/'');
             segs = foldl (normalize_segment (isAbsolute = False)) [] (split_on (CHR ''/'') path);
             p = join_with ''/'' segs
         in if p = [] then
              (if isAbsolute then ''/'' else if trailingSeparator then ''./'' else ''.'')
            else
              (let p2 = (if trailingSeparator then p @ ''/'' else p)
               in if isAbsolute then ''/'' @ p2 else p2)))"

definition path_join :: "string list \<Rightarrow> string" where
  \<comment> \<open>\<open>path.join(...args)\<close>: the non-empty arguments joined by \<open>/\<close>, then normalised\<close>
  "path_join args =
     (case filter (\<lambda>a. a \<noteq> []) args of
        [] \<Rightarrow> ''.''
      | nonEmpty \<Rightarrow> path_normalize (join_with ''/'' nonEmpty))"

section \<open>Classification of the files next to a descriptor\<close>

text \<open>
  The loop over \<open>fs.readdirSync(folder)\<close> is the same text in \<open>src/index.ts\<close>
  (lines 58 to 93) and in the two later revisions of the file (lines 88 to 123 and 130 to
  165). Its body leaves by \<open>continue\<close> at three places and pushes to the three arrays at
  the end; the verdict records which exit a file takes.
\<close>

datatype verdict =
    Skip_filtered        \<comment> \<open>first \<open>continue\<close>: wrong prefix, ignored extension or no extension\<close>
  | Skip_other_family    \<comment> \<open>second \<open>continue\<close>: the rest of the stem does not start with \<open>-\<close>\<close>
  | Skip_main_artifact   \<comment> \<open>third \<open>continue\<close>: type \<open>jar\<close> with an empty classifier\<close>
  | Extra string string  \<comment> \<open>pushed: its type and its classifier\<close>

definition ignoredExts :: "string list" where
  "ignoredExts = [''.pom'', ''.md5'', ''.sha1'', ''.sha256'', ''.sha512'']"

definition classify_sibling :: "string \<Rightarrow> string \<Rightarrow> verdict" where
  "classify_sibling basename filePath =
     (let parsed = path_parse filePath
      in if \<not> startsWith (parsed_name parsed) basename \<or>
            parsed_ext parsed \<in> set ignoredExts \<or>
            parsed_ext parsed = []
         then Skip_filtered
         else
           (let type = substring (parsed_ext parsed) 1;
                classifier = substring (parsed_name parsed) (length basename)
            in if 0 < length classifier \<and> \<not> startsWith classifier ''-'' then Skip_other_family
               else
                 (let classifier2 = (if 0 < length classifier then substring classifier 1
                                     else classifier)
                  in if type = ''jar'' \<and> classifier2 = [] then Skip_main_artifact
                     else Extra type classifier2)))"

record extras =
  extraFiles :: "string list"
  extraTypes :: "string list"
  extraClassifiers :: "string list"

definition no_extras :: extras where
  "no_extras = \<lparr>extraFiles = [], extraTypes = [], extraClassifiers = []\<rparr>"

fun collect_extras :: "string \<Rightarrow> string list \<Rightarrow> extras \<Rightarrow> extras" where
  "collect_extras basename [] acc = acc"
| "collect_extras basename (filePath # rest) acc =
     (case classify_sibling basename filePath of
        Extra type classifier \<Rightarrow>
          collect_extras basename rest
            (acc\<lparr>extraFiles := extraFiles acc @ [filePath],
                 extraTypes := extraTypes acc @ [type],
                 extraClassifiers := extraClassifiers acc @ [classifier]\<rparr>)
      | _ \<Rightarrow> collect_extras basename rest acc)"

section \<open>The outside world and the effects of a run\<close>

text \<open>
  The action talks to the file system, the hosted cache, the \<open>mvn\<close> process and the
  remote repository. Their answers are the fields of a \<open>world\<close>; what the action does to
  them, and what it logs, is the list of events it returns, in order. A thrown value is
  either an \<open>Error\<close> object with its message or some other value (the last \<open>catch\<close> of
  \<open>main\<close> tells them apart with \<open>instanceof\<close>).
\<close>

datatype thrown = Error_obj string | Other_value

datatype http_outcome =
    Resolved nat                       \<comment> \<open>the promise resolves with this status\<close>
  | Rejected_axios "nat option" string \<comment> \<open>an axios error: \<open>response?.status\<close> and message\<close>
  | Rejected_other string              \<comment> \<open>another \<open>Error\<close>, with its message\<close>

record exec_outcome =
  out_stdout :: string
  out_stderr :: string
  out_failure :: "thrown option"   \<comment> \<open>the value \<open>exec.exec\<close> rejects with, if it does\<close>

datatype event =
    Debug string
  | Info string
  | Warning string
  | Set_failed string
  | Set_secret string
  | Write_file string string
  | Restore_cache "string list" string
  | Save_cache "string list" string
  | Exec_mvn "string list" string "(string \<times> string) list option"
      \<comment> \<open>arguments, working directory, and the environment option when one is passed\<close>
  | Http_get string "(string \<times> string) list"
      \<comment> \<open>URL and request headers\<close>

record world =
  getInput :: "string \<Rightarrow> string"
  os_tmpdir :: string
  os_homedir :: string
  env_RUNNER_OS :: "string option"
  globSync :: "string \<Rightarrow> string \<Rightarrow> string list"   \<comment> \<open>pattern, \<open>cwd\<close>; absolute matches\<close>
  existsSync :: "string \<Rightarrow> bool"
  readdirSync :: "string \<Rightarrow> thrown + string list"
  readFileSync :: "string \<Rightarrow> thrown + string"
  writeFileSync :: "string \<Rightarrow> string \<Rightarrow> thrown option"
  restoreCache :: "string list \<Rightarrow> string \<Rightarrow> thrown + string option"
  saveCache :: "string list \<Rightarrow> string \<Rightarrow> thrown option"
  exec_mvn :: "string list \<Rightarrow> string \<Rightarrow> exec_outcome"
  axios_get :: "string \<Rightarrow> (string \<times> string) list \<Rightarrow> http_outcome"

type_synonym 'a result = "event list \<times> (thrown + 'a)"

definition ret :: "'a \<Rightarrow> 'a result" where
  "ret x = ([], Inr x)"

definition throw :: "thrown \<Rightarrow> 'a result" where
  "throw e = ([], Inl e)"

definition emit :: "event \<Rightarrow> unit result" where
  "emit ev = ([ev], Inr ())"

definition lift :: "thrown + 'a \<Rightarrow> 'a result" where
  "lift r = ([], r)"

definition lift_unit :: "thrown option \<Rightarrow> unit result" where
  "lift_unit r = (case r of None \<Rightarrow> ([], Inr ()) | Some e \<Rightarrow> ([], Inl e))"

definition bind_r :: "'a result \<Rightarrow> ('a \<Rightarrow> 'b result) \<Rightarrow> 'b result" where
  \<comment> \<open>sequencing: a thrown value skips the rest, the events so far are kept\<close>
  "bind_r m f =
     (case m of
        (t, Inl e) \<Rightarrow> (t, Inl e)
      | (t, Inr x) \<Rightarrow> (case f x of (t2, r) \<Rightarrow> (t @ t2, r)))"

fun for_each :: "('a \<Rightarrow> unit result) \<Rightarrow> 'a list \<Rightarrow> unit result" where
  \<comment> \<open>\<open>for (const x of xs) { body }\<close>, where a normal end of the body covers \<open>continue\<close>\<close>
  "for_each body [] = ret ()"
| "for_each body (x # xs) = bind_r (body x) (\<lambda>_. for_each body xs)"

definition catch_main :: "unit result \<Rightarrow> event list" where
  \<comment> \<open>\<open>catch (error) { if (error instanceof Error) core.setFailed(error.message) }\<close>\<close>
  "catch_main m =
     (case m of
        (t, Inr _) \<Rightarrow> t
      | (t, Inl (Error_obj msg)) \<Rightarrow> t @ [Set_failed msg]
      | (t, Inl Other_value) \<Rightarrow> t)"

section \<open>Base64 of the credentials\<close>

text \<open>
  \<open>Buffer.from(s).toString('base64')\<close>: the UTF-8 bytes of the string in the standard
  alphabet, padded with \<open>=\<close>.
\<close>

definition utf8_bytes :: "string \<Rightarrow> nat list" where
  "utf8_bytes s =
     concat (map (\<lambda>c. let n = (of_char c :: nat)
                        in if n < 128 then [n] else [192 + n div 64, 128 + n mod 64]) s)"

definition base64_alphabet :: string where
  "base64_alphabet = ''ABCDEFGHIJKLMNOPQRSTUVWXYZabcdefghijklmnopqrstuvwxyz0123456789+/''"

definition base64_digit :: "nat \<Rightarrow> char" where
  "base64_digit n = base64_alphabet ! (n mod 64)"

fun base64_of_bytes :: "nat list \<Rightarrow> string" where
  "base64_of_bytes [] = []"
| "base64_of_bytes [a] =
     [base64_digit (a div 4), base64_digit ((a mod 4) * 16), CHR ''='', CHR ''='']"
| "base64_of_bytes [a, b] =
     [base64_digit (a div 4), base64_digit ((a mod 4) * 16 + b div 16),
      base64_digit ((b mod 16) * 4), CHR ''='']"
| "base64_of_bytes (a # b # c # rest) =
     [base64_digit (a div 4), base64_digit ((a mod 4) * 16 + b div 16),
      base64_digit ((b mod 16) * 4 + c div 64), base64_digit (c mod 64)]
     @ base64_of_bytes rest"

definition base64 :: "string \<Rightarrow> string" where
  "base64 s = base64_of_bytes (utf8_bytes s)"

section \<open>The idempotency probe\<close>

definition artifactPath_of :: "string \<Rightarrow> string \<Rightarrow> string \<Rightarrow> string" where
  "artifactPath_of groupId artifactId version =
     replace_dots groupId @ ''/'' @ artifactId @ ''/'' @ version @ ''/'' @
     artifactId @ ''-'' @ version @ ''.jar''"

definition artifactExists ::
  "world \<Rightarrow> string \<Rightarrow> string \<Rightarrow> string \<Rightarrow> string \<Rightarrow> string \<Rightarrow> string \<Rightarrow> bool result" where
  "artifactExists w groupId artifactId version repositoryUrl username password =
     (let artifactPath = artifactPath_of groupId artifactId version;
          checkUrl = repositoryUrl @ ''/'' @ artifactPath;
          headers = [(''Authorization'', ''Basic '' @ base64 (username @ '':'' @ password))]
      in bind_r (emit (Info (''Checking existence of artifact: '' @ checkUrl))) (\<lambda>_.
         bind_r (emit (Http_get checkUrl headers)) (\<lambda>_.
           (case axios_get w checkUrl headers of
              Resolved status \<Rightarrow>
                (if status = 200
                 then bind_r (emit (Info (''Artifact exists: '' @ checkUrl))) (\<lambda>_. ret True)
                 else ret False)
            | Rejected_axios status msg \<Rightarrow>
                (if status = Some 404
                 then bind_r (emit (Info (''Artifact does not exist: '' @ checkUrl)))
                        (\<lambda>_. ret False)
                 else bind_r (emit (Warning (''Failed to check artifact existence: '' @ msg)))
                        (\<lambda>_. ret False))
            | Rejected_other msg \<Rightarrow>
                bind_r (emit (Warning (''Failed to check artifact existence: '' @ msg)))
                  (\<lambda>_. ret False)))))"

section \<open>Regular expressions over the descriptor\<close>

definition is_line_terminator :: "char \<Rightarrow> bool" where
  \<comment> \<open>the characters \<open>.\<close> does not match, among code units below 256\<close>
  "is_line_terminator c = (c = CHR 0x0A \<or> c = CHR 0x0D)"

fun lazy_until :: "string \<Rightarrow> string \<Rightarrow> string option" where
  \<comment> \<open>\<open>(.*?)\<close> followed by a literal: the shortest run of non-terminators before it\<close>
  "lazy_until closing [] = (if closing = [] then Some [] else None)"
| "lazy_until closing (c # cs) =
     (if startsWith (c # cs) closing then Some []
      else if is_line_terminator c then None
      else map_option ((#) c) (lazy_until closing cs))"

fun match_between :: "string \<Rightarrow> string \<Rightarrow> string \<Rightarrow> string option" where
  \<comment> \<open>\<open>s.match(/opening(.*?)closing/)\<close>: group 1 of the leftmost match, if any\<close>
  "match_between opening closing [] =
     (if opening = [] then lazy_until closing [] else None)"
| "match_between opening closing (c # cs) =
     (if startsWith (c # cs) opening
      then (case lazy_until closing (drop (length opening) (c # cs)) of
              Some captured \<Rightarrow> Some captured
            | None \<Rightarrow> match_between opening closing cs)
      else match_between opening closing cs)"

section \<open>Assembling the command line\<close>

definition extra_args :: "extras \<Rightarrow> string list" where
  \<comment> \<open>\<open>if (extraFiles.length > 0) cmd.push(...)\<close>\<close>
  "extra_args ex =
     (if 0 < length (extraFiles ex)
      then [''-Dfiles='' @ join_with '','' (extraFiles ex),
            ''-Dtypes='' @ join_with '','' (extraTypes ex),
            ''-Dclassifiers='' @ join_with '','' (extraClassifiers ex)]
      else [])"

definition cmd_index :: "string \<Rightarrow> string \<Rightarrow> string \<Rightarrow> string \<Rightarrow> string list" where
  \<comment> \<open>\<open>src/index.ts\<close>, lines 46 to 56\<close>
  "cmd_index mavenSettings remoteUrl pomFile mainArtifact =
     [''-s'',
      mavenSettings,
      ''org.apache.maven.plugins:maven-deploy-plugin:deploy-file'',
      ''-Daether.checksums.algorithms=MD5,SHA-1,SHA-256,SHA-512'',
      ''-DretryFailedDeploymentCount=3'',
      ''-Durl='' @ remoteUrl,
      ''-DpomFile='' @ pomFile,
      ''-Dfile='' @ mainArtifact]"

definition cmd_part000 :: "string \<Rightarrow> string \<Rightarrow> string \<Rightarrow> string \<Rightarrow> string list" where
  \<comment> \<open>the revision with the cache, lines 75 to 86\<close>
  "cmd_part000 mavenSettings remoteUrl pomFile mainArtifact =
     [''--batch-mode'',
      ''--settings'',
      mavenSettings,
      ''org.apache.maven.plugins:maven-deploy-plugin:deploy-file'',
      ''-Daether.checksums.algorithms=MD5,SHA-1,SHA-256,SHA-512'',
      ''-DretryFailedDeploymentCount=3'',
      ''-Durl='' @ remoteUrl,
      ''-DpomFile='' @ pomFile,
      ''-Dfile='' @ mainArtifact]"

definition cmd_part001 :: "string \<Rightarrow> string \<Rightarrow> string \<Rightarrow> string \<Rightarrow> string list" where
  \<comment> \<open>the revision with the probe, lines 113 to 128\<close>
  "cmd_part001 mavenSettings remoteUrl pomFile mainArtifact =
     [''--batch-mode'',
      ''--color'',
      ''always'',
      ''-Dorg.slf4j.simpleLogger.showDateTime=true'',
      ''-Dorg.slf4j.simpleLogger.dateTimeFormat=HH:mm:ss,SSS'',
      ''--settings'',
      mavenSettings,
      ''org.apache.maven.plugins:maven-deploy-plugin:deploy-file'',
      ''-Daether.checksums.algorithms=MD5,SHA-1,SHA-256,SHA-512'',
      ''-DretryFailedDeploymentCount=3'',
      ''-Durl='' @ remoteUrl,
      ''-DpomFile='' @ pomFile,
      ''-Dfile='' @ mainArtifact]"

section \<open>Settings file and cache key\<close>

definition nl :: string where
  "nl = [CHR 0x0A]"

definition settings_xml_part000 :: string where
  \<comment> \<open>the template literal of the revision with the cache (some lines end in blanks)\<close>
  "settings_xml_part000 =
      nl @ ''      <settings>'' @
      nl @ ''        <servers>'' @
      nl @ ''          <server>'' @
      nl @ ''            <id>remote-repository</id>'' @
      nl @ ''            <username>${env.REMOTE_REPO_USERNAME}</username>          '' @
      nl @ ''            <password>${env.REMOTE_REPO_PASSWORD}</password>          '' @
      nl @ ''          </server>        '' @
      nl @ ''        </servers>'' @
      nl @ ''      </settings>'' @
      nl @ ''      ''"

definition settings_xml_part001 :: string where
  \<comment> \<open>the template literal of the revision with the probe\<close>
  "settings_xml_part001 =
      nl @ ''      <settings>'' @
      nl @ ''        <servers>'' @
      nl @ ''          <server>'' @
      nl @ ''            <id>remote-repository</id>'' @
      nl @ ''            <username>${env.REMOTE_REPO_USERNAME}</username>'' @
      nl @ ''            <password>${env.REMOTE_REPO_PASSWORD}</password>'' @
      nl @ ''          </server>'' @
      nl @ ''        </servers>'' @
      nl @ ''      </settings>'' @
      nl @ ''      ''"

definition primaryCacheKey_of :: "world \<Rightarrow> string" where
  \<comment> \<open>\<open>`maven-publish-${process.env['RUNNER_OS']}`\<close>; an unset variable prints as \<open>undefined\<close>\<close>
  "primaryCacheKey_of w =
     ''maven-publish-'' @ (case env_RUNNER_OS w of None \<Rightarrow> ''undefined'' | Some v \<Rightarrow> v)"

definition cachedPaths_of :: "world \<Rightarrow> string list" where
  "cachedPaths_of w = [path_join [os_homedir w, ''.m2'', ''repository'']]"

definition tempDir_of :: "world \<Rightarrow> string" where
  \<comment> \<open>\<open>let tempDir = core.getInput('temp-dir'); if (!tempDir) tempDir = os.tmpdir()\<close>\<close>
  "tempDir_of w =
     (let tempDir = getInput w ''temp-dir''
      in if tempDir = [] then os_tmpdir w else tempDir)"

definition restore_message :: "string option \<Rightarrow> event" where
  \<comment> \<open>\<open>if (matchedCacheKey) ... else ...\<close>: an undefined or empty key is falsy\<close>
  "restore_message matchedCacheKey =
     (case matchedCacheKey of
        None \<Rightarrow> Info ''Maven cache was not found''
      | Some k \<Rightarrow>
          (if k = [] then Info ''Maven cache was not found''
           else Info (''Cache restored from key: '' @ k)))"

definition credentials_env :: "string \<Rightarrow> string \<Rightarrow> (string \<times> string) list" where
  "credentials_env remoteUsername remotePassword =
     [(''REMOTE_REPO_USERNAME'', remoteUsername), (''REMOTE_REPO_PASSWORD'', remotePassword)]"

section \<open>\<open>src/index.ts\<close>: the first revision\<close>

definition deploy_family_index :: "world \<Rightarrow> string \<Rightarrow> string \<Rightarrow> string \<Rightarrow> unit result" where
  \<comment> \<open>the body of \<open>for (let pomFile of pomFiles)\<close>, lines 31 to 105\<close>
  "deploy_family_index w remoteUrl tempDir pomFile =
     (let pomPath = path_parse pomFile;
          folder = parsed_dir pomPath;
          basename = parsed_name pomPath;
          mainArtifact = path_join [folder, basename @ ''.jar'']
      in if \<not> existsSync w mainArtifact
         then emit (Warning (''Main artifact not found: '' @ mainArtifact))
         else
           (let mavenSettings = path_join [tempDir, ''maven-settings.xml''];
                cmd = cmd_index mavenSettings remoteUrl pomFile mainArtifact
            in bind_r (lift (readdirSync w folder)) (\<lambda>files.
                 (let cmd2 = cmd @ extra_args (collect_extras basename files no_extras)
                  in bind_r (emit (Exec_mvn cmd2 folder None)) (\<lambda>_.
                       lift_unit (out_failure (exec_mvn w cmd2 folder)))))))"

definition main_index :: "world \<Rightarrow> event list" where
  "main_index w =
     catch_main
       (let localPath = getInput w ''local-repository-path'';
            remoteUrl = getInput w ''remote-repository-url'';
            remotePassword = getInput w ''remote-repository-password'';
            tempDir = tempDir_of w
        in bind_r (emit (Set_secret remotePassword)) (\<lambda>_.
           (let pomFiles = globSync w ''**/*.pom'' localPath
            in bind_r (emit (Debug (''Found pom files: '' @ array_to_string pomFiles))) (\<lambda>_.
                 for_each (deploy_family_index w remoteUrl tempDir) pomFiles))))"

section \<open>The revision with the cache\<close>

definition deploy_family_part000 ::
  "world \<Rightarrow> string \<Rightarrow> string \<Rightarrow> string \<Rightarrow> string \<Rightarrow> string \<Rightarrow> unit result" where
  \<comment> \<open>the body of \<open>for (const pomFile of pomFiles)\<close>, lines 62 to 139\<close>
  "deploy_family_part000 w remoteUrl remoteUsername remotePassword mavenSettings pomFile =
     (let pomPath = path_parse pomFile;
          folder = parsed_dir pomPath;
          basename = parsed_name pomPath;
          mainArtifact = path_join [folder, basename @ ''.jar'']
      in if \<not> existsSync w mainArtifact
         then emit (Warning (''Main artifact not found: '' @ mainArtifact))
         else
           (let cmd = cmd_part000 mavenSettings remoteUrl pomFile mainArtifact
            in bind_r (lift (readdirSync w folder)) (\<lambda>files.
                 (let cmd2 = cmd @ extra_args (collect_extras basename files no_extras)
                  in bind_r (emit (Exec_mvn cmd2 folder
                                     (Some (credentials_env remoteUsername remotePassword)))) (\<lambda>_.
                       lift_unit (out_failure (exec_mvn w cmd2 folder)))))))"

definition main_part000 :: "world \<Rightarrow> event list" where
  "main_part000 w =
     catch_main
       (let localPath = getInput w ''local-repository-path'';
            remoteUrl = getInput w ''remote-repository-url'';
            remoteUsername = getInput w ''remote-repository-username'';
            remotePassword = getInput w ''remote-repository-password'';
            tempDir = tempDir_of w
        in bind_r (emit (Set_secret remotePassword)) (\<lambda>_.
           (let pomFiles = globSync w ''**/*.pom'' localPath
            in bind_r (emit (Debug (''Found pom files: '' @ array_to_string pomFiles))) (\<lambda>_.
               (let mavenSettings = path_join [tempDir, ''maven-settings.xml'']
                in bind_r (emit (Write_file mavenSettings settings_xml_part000)) (\<lambda>_.
                   bind_r (lift_unit (writeFileSync w mavenSettings settings_xml_part000)) (\<lambda>_.
                   (let primaryCacheKey = primaryCacheKey_of w;
                        cachedPaths = cachedPaths_of w
                    in bind_r (emit (Restore_cache cachedPaths primaryCacheKey)) (\<lambda>_.
                       bind_r (lift (restoreCache w cachedPaths primaryCacheKey)) (\<lambda>matchedCacheKey.
                       bind_r (emit (restore_message matchedCacheKey)) (\<lambda>_.
                       bind_r (for_each (deploy_family_part000 w remoteUrl remoteUsername
                                           remotePassword mavenSettings) pomFiles) (\<lambda>_.
                       bind_r (emit (Save_cache cachedPaths primaryCacheKey)) (\<lambda>_.
                       bind_r (lift_unit (saveCache w cachedPaths primaryCacheKey)) (\<lambda>_.
                       emit (Info (''Cache saved with the key: '' @ primaryCacheKey))))))))))))))))"

section \<open>The revision with the idempotency probe\<close>

definition signature_400 :: string where
  "signature_400 = ''status: 400 Bad Request''"

definition deploy_catch_part001 ::
  "world \<Rightarrow> string \<Rightarrow> string \<Rightarrow> string \<Rightarrow> string \<Rightarrow> string \<Rightarrow> string \<Rightarrow> thrown \<Rightarrow> unit result" where
  \<comment> \<open>the \<open>catch (error)\<close> block around \<open>exec.exec\<close>, lines 192 to 221\<close>
  "deploy_catch_part001 w remoteUrl remoteUsername remotePassword pomFile stdout stderr error =
     (if str_includes stderr signature_400 \<or> str_includes stdout signature_400
      then bind_r (lift (readFileSync w pomFile)) (\<lambda>pomContent.
             (let groupIdMatch = match_between ''<groupId>'' ''</groupId>'' pomContent;
                  artifactIdMatch = match_between ''<artifactId>'' ''</artifactId>'' pomContent;
                  versionMatch = match_between ''<version>'' ''</version>'' pomContent
              in (case (groupIdMatch, artifactIdMatch, versionMatch) of
                    (Some groupId, Some artifactId, Some version) \<Rightarrow>
                      bind_r (artifactExists w groupId artifactId version remoteUrl
                                remoteUsername remotePassword) (\<lambda>found.
                        if found
                        then emit (Warning ''Artifact already exists in the repository'')
                        else ret ())
                  | _ \<Rightarrow> ret ())))
      else throw error)"

definition deploy_family_part001 ::
  "world \<Rightarrow> string \<Rightarrow> string \<Rightarrow> string \<Rightarrow> string \<Rightarrow> string \<Rightarrow> unit result" where
  \<comment> \<open>the body of \<open>for (const pomFile of pomFiles)\<close>, lines 100 to 222\<close>
  "deploy_family_part001 w remoteUrl remoteUsername remotePassword mavenSettings pomFile =
     (let pomPath = path_parse pomFile;
          folder = parsed_dir pomPath;
          basename = parsed_name pomPath;
          mainArtifact = path_join [folder, basename @ ''.jar'']
      in if \<not> existsSync w mainArtifact
         then emit (Warning (''Main artifact not found: '' @ mainArtifact))
         else
           (let cmd = cmd_part001 mavenSettings remoteUrl pomFile mainArtifact
            in bind_r (lift (readdirSync w folder)) (\<lambda>files.
                 (let cmd2 = cmd @ extra_args (collect_extras basename files no_extras)
                  in bind_r (emit (Exec_mvn cmd2 folder
                                     (Some (credentials_env remoteUsername remotePassword)))) (\<lambda>_.
                       (let out = exec_mvn w cmd2 folder
                        in (case out_failure out of
                              None \<Rightarrow> ret ()
                            | Some error \<Rightarrow>
                                deploy_catch_part001 w remoteUrl remoteUsername remotePassword
                                  pomFile (out_stdout out) (out_stderr out) error)))))))"

definition main_part001 :: "world \<Rightarrow> event list" where
  "main_part001 w =
     catch_main
       (let localPath = getInput w ''local-repository-path'';
            remoteUrl = getInput w ''remote-repository-url'';
            remoteUsername = getInput w ''remote-repository-username'';
            remotePassword = getInput w ''remote-repository-password'';
            tempDir = tempDir_of w
        in bind_r (emit (Set_secret remotePassword)) (\<lambda>_.
           (let pomFiles = globSync w ''**/*.pom'' localPath
            in bind_r (emit (Debug (''Found pom files: '' @ array_to_string pomFiles))) (\<lambda>_.
               (let mavenSettings = path_join [tempDir, ''maven-settings.xml'']
                in bind_r (emit (Write_file mavenSettings settings_xml_part001)) (\<lambda>_.
                   bind_r (lift_unit (writeFileSync w mavenSettings settings_xml_part001)) (\<lambda>_.
                   (let primaryCacheKey = primaryCacheKey_of w;
                        cachedPaths = cachedPaths_of w
                    in bind_r (emit (Restore_cache cachedPaths primaryCacheKey)) (\<lambda>_.
                       bind_r (lift (restoreCache w cachedPaths primaryCacheKey)) (\<lambda>matchedCacheKey.
                       bind_r (emit (restore_message matchedCacheKey)) (\<lambda>_.
                       bind_r (for_each (deploy_family_part001 w remoteUrl remoteUsername
                                           remotePassword mavenSettings) pomFiles) (\<lambda>_.
                       bind_r (emit (Save_cache cachedPaths primaryCacheKey)) (\<lambda>_.
                       bind_r (lift_unit (saveCache w cachedPaths primaryCacheKey)) (\<lambda>_.
                       emit (Info (''Cache saved with the key: '' @ primaryCacheKey))))))))))))))))"

section \<open>Reading a verdict\<close>

definition is_extra :: "string \<Rightarrow> string \<Rightarrow> bool" where
  "is_extra basename filePath =
     (case classify_sibling basename filePath of Extra _ _ \<Rightarrow> True | _ \<Rightarrow> False)"

definition extra_type :: "string \<Rightarrow> string \<Rightarrow> string" where
  "extra_type basename filePath =
     (case classify_sibling basename filePath of Extra type _ \<Rightarrow> type | _ \<Rightarrow> [])"

definition extra_classifier :: "string \<Rightarrow> string \<Rightarrow> string" where
  "extra_classifier basename filePath =
     (case classify_sibling basename filePath of Extra _ classifier \<Rightarrow> classifier | _ \<Rightarrow> [])"

section \<open>Names for the parts of a run\<close>

text \<open>
  What the loop body derives from a descriptor path, the loop of each revision with the
  arguments \<open>main\<close> passes, and tests on events, named so that statements about a run
  stay readable.
\<close>

definition folder_of :: "string \<Rightarrow> string" where
  "folder_of pomFile = parsed_dir (path_parse pomFile)"

definition basename_of :: "string \<Rightarrow> string" where
  "basename_of pomFile = parsed_name (path_parse pomFile)"

definition mainArtifact_of :: "string \<Rightarrow> string" where
  "mainArtifact_of pomFile = path_join [folder_of pomFile, basename_of pomFile @ ''.jar'']"

definition mavenSettings_of :: "string \<Rightarrow> string" where
  "mavenSettings_of tempDir = path_join [tempDir, ''maven-settings.xml'']"

definition listed_extra_args :: "string \<Rightarrow> string list \<Rightarrow> string list" where
  \<comment> \<open>the three joined arguments, read off the folder's listing: present when some listed
      file is an extra artifact, each joined over the same files in the listing's order\<close>
  "listed_extra_args basename files =
     (if filter (is_extra basename) files = [] then []
      else [''-Dfiles='' @ join_with '','' (filter (is_extra basename) files),
            ''-Dtypes='' @
              join_with '','' (map (extra_type basename) (filter (is_extra basename) files)),
            ''-Dclassifiers='' @
              join_with '','' (map (extra_classifier basename) (filter (is_extra basename) files))])"

definition loop_index :: "world \<Rightarrow> unit result" where
  "loop_index w =
     for_each (deploy_family_index w (getInput w ''remote-repository-url'') (tempDir_of w))
       (globSync w ''**/*.pom'' (getInput w ''local-repository-path''))"

definition loop_part000 :: "world \<Rightarrow> unit result" where
  "loop_part000 w =
     for_each (deploy_family_part000 w (getInput w ''remote-repository-url'')
                 (getInput w ''remote-repository-username'')
                 (getInput w ''remote-repository-password'')
                 (mavenSettings_of (tempDir_of w)))
       (globSync w ''**/*.pom'' (getInput w ''local-repository-path''))"

definition loop_part001 :: "world \<Rightarrow> unit result" where
  "loop_part001 w =
     for_each (deploy_family_part001 w (getInput w ''remote-repository-url'')
                 (getInput w ''remote-repository-username'')
                 (getInput w ''remote-repository-password'')
                 (mavenSettings_of (tempDir_of w)))
       (globSync w ''**/*.pom'' (getInput w ''local-repository-path''))"

definition is_http_get :: "event \<Rightarrow> bool" where
  "is_http_get ev = (case ev of Http_get _ _ \<Rightarrow> True | _ \<Rightarrow> False)"

definition is_exec_mvn :: "event \<Rightarrow> bool" where
  "is_exec_mvn ev = (case ev of Exec_mvn _ _ _ \<Rightarrow> True | _ \<Rightarrow> False)"

definition is_cache_call :: "event \<Rightarrow> bool" where
  "is_cache_call ev =
     (case ev of Save_cache _ _ \<Rightarrow> True | Restore_cache _ _ \<Rightarrow> True | _ \<Rightarrow> False)"

definition is_set_failed :: "event \<Rightarrow> bool" where
  "is_set_failed ev = (case ev of Set_failed _ \<Rightarrow> True | _ \<Rightarrow> False)"

definition authorization :: "string \<Rightarrow> string \<Rightarrow> (string \<times> string) list" where
  \<comment> \<open>the headers of the probe's request\<close>
  "authorization username password =
     [(''Authorization'', ''Basic '' @ base64 (username @ '':'' @ password))]"

section \<open>A sample run\<close>

text \<open>
  One descriptor \<open>/repo/foo.pom\<close> whose folder lists six files. The answers of the tool
  and of the repository are parameters: the outcome of \<open>mvn\<close>, the content of the
  descriptor, and the outcome of the GET.
\<close>

definition sample_pom :: string where
  "sample_pom =
     ''<project><groupId>com.example</groupId><artifactId>foo</artifactId>'' @
     ''<version>1.0</version></project>''"

definition sample_world :: "bool \<Rightarrow> exec_outcome \<Rightarrow> string \<Rightarrow> http_outcome \<Rightarrow> world" where
  "sample_world jarPresent out pomContent http =
     \<lparr>getInput = (\<lambda>k. if k = ''local-repository-path'' then ''/repo''
                       else if k = ''remote-repository-url'' then ''https://r.example/m2''
                       else if k = ''remote-repository-username'' then ''user''
                       else if k = ''remote-repository-password'' then ''pass''
                       else []),
      os_tmpdir = ''/tmp'',
      os_homedir = ''/home/u'',
      env_RUNNER_OS = Some ''Linux'',
      globSync = (\<lambda>pattern cwd. [''/repo/foo.pom'']),
      existsSync = (\<lambda>p. p = ''/repo/foo.jar'' \<and> jarPresent),
      readdirSync = (\<lambda>d. Inr [''foo.asc'', ''foo.jar'', ''foo.pom'', ''foo.pom.sha1'',
                               ''foo-sources.jar'', ''foobar.jar'']),
      readFileSync = (\<lambda>p. Inr pomContent),
      writeFileSync = (\<lambda>p c. None),
      restoreCache = (\<lambda>ps k. Inr None),
      saveCache = (\<lambda>ps k. None),
      exec_mvn = (\<lambda>cmd cwd. out),
      axios_get = (\<lambda>url hs. http)\<rparr>"

definition mvn_ok :: exec_outcome where
  "mvn_ok = \<lparr>out_stdout = ''BUILD SUCCESS'', out_stderr = [], out_failure = None\<rparr>"

definition mvn_rejected_400 :: exec_outcome where
  "mvn_rejected_400 =
     \<lparr>out_stdout = ''[ERROR] Transfer failed, status: 400 Bad Request'', out_stderr = [],
      out_failure = Some (Error_obj ''The process mvn failed with exit code 1'')\<rparr>"

definition mvn_broken :: exec_outcome where
  "mvn_broken =
     \<lparr>out_stdout = ''[ERROR] status: 401 Unauthorized'', out_stderr = [],
      out_failure = Some (Error_obj ''The process mvn failed with exit code 1'')\<rparr>"

definition world_ok :: world where
  \<comment> \<open>the deploy succeeds\<close>
  "world_ok = sample_world True mvn_ok sample_pom (Resolved 200)"

definition world_no_jar :: world where
  \<comment> \<open>the folder has no \<open>foo.jar\<close>\<close>
  "world_no_jar = sample_world False mvn_ok sample_pom (Resolved 200)"

definition world_broken :: world where
  \<comment> \<open>the deploy fails without the 400 signature\<close>
  "world_broken = sample_world True mvn_broken sample_pom (Resolved 200)"

definition world_400_present :: world where
  \<comment> \<open>the deploy is rejected with status 400 and the repository has the artifact\<close>
  "world_400_present = sample_world True mvn_rejected_400 sample_pom (Resolved 200)"

definition world_400_absent :: world where
  \<comment> \<open>the deploy is rejected with status 400 and the repository answers 404\<close>
  "world_400_absent =
     sample_world True mvn_rejected_400 sample_pom
       (Rejected_axios (Some 404) ''Request failed with status code 404'')"

definition world_400_no_coordinates :: world where
  \<comment> \<open>the deploy is rejected with status 400 and the descriptor names no coordinates\<close>
  "world_400_no_coordinates = sample_world True mvn_rejected_400 ''<project/>'' (Resolved 200)"

definition world_204 :: world where
  \<comment> \<open>the repository answers the GET with status 204\<close>
  "world_204 = sample_world True mvn_rejected_400 sample_pom (Resolved 204)"

definition world_unreachable :: world where
  \<comment> \<open>the GET fails before any response\<close>
  "world_unreachable =
     sample_world True mvn_rejected_400 sample_pom
       (Rejected_axios None ''connect ECONNREFUSED 10.0.0.1:443'')"

definition sample_invocation_part001 :: event where
  \<comment> \<open>the call of \<open>mvn\<close> that the revision with the probe makes for \<open>/repo/foo.pom\<close>\<close>
  "sample_invocation_part001 =
     Exec_mvn
       [''--batch-mode'', ''--color'', ''always'',
        ''-Dorg.slf4j.simpleLogger.showDateTime=true'',
        ''-Dorg.slf4j.simpleLogger.dateTimeFormat=HH:mm:ss,SSS'',
        ''--settings'', ''/tmp/maven-settings.xml'',
        ''org.apache.maven.plugins:maven-deploy-plugin:deploy-file'',
        ''-Daether.checksums.algorithms=MD5,SHA-1,SHA-256,SHA-512'',
        ''-DretryFailedDeploymentCount=3'',
        ''-Durl=https://r.example/m2'', ''-DpomFile=/repo/foo.pom'', ''-Dfile=/repo/foo.jar'',
        ''-Dfiles=foo.asc,foo-sources.jar'', ''-Dtypes=asc,jar'', ''-Dclassifiers=,sources'']
       ''/repo''
       (Some [(''REMOTE_REPO_USERNAME'', ''user''), (''REMOTE_REPO_PASSWORD'', ''pass'')])"

definition sample_loop_part001 :: "world \<Rightarrow> unit result" where
  \<comment> \<open>the loop of the revision with the probe over \<open>/repo/foo.pom\<close> and then
      \<open>/repo/bar.pom\<close>, a descriptor without its main artifact\<close>
  "sample_loop_part001 w =
     for_each (deploy_family_part001 w ''https://r.example/m2'' ''user'' ''pass''
                 ''/tmp/maven-settings.xml'')
       [''/repo/foo.pom'', ''/repo/bar.pom'']"

section \<open>The three arrays of a family\<close>

text \<open>
  The loop pushes to the three arrays together, so each of them is the same selection of
  the folder's listing, in the listing's order.
\<close>

lemma collect_extras_acc:
  "collect_extras b files acc =
     \<lparr>extraFiles = extraFiles acc @ filter (is_extra b) files,
      extraTypes = extraTypes acc @ map (extra_type b) (filter (is_extra b) files),
      extraClassifiers =
        extraClassifiers acc @ map (extra_classifier b) (filter (is_extra b) files)\<rparr>"
proof (induction files arbitrary: acc)
  case Nil
  show ?case by simp
next
  case (Cons f fs)
  show ?case
    by (cases "classify_sibling b f")
       (simp_all add: Cons.IH is_extra_def extra_type_def extra_classifier_def)
qed

lemma collect_extras_filter:
  "collect_extras b files no_extras =
     \<lparr>extraFiles = filter (is_extra b) files,
      extraTypes = map (extra_type b) (filter (is_extra b) files),
      extraClassifiers = map (extra_classifier b) (filter (is_extra b) files)\<rparr>"
  by (simp add: collect_extras_acc no_extras_def)

lemma is_extra_verdict:
  "is_extra b f \<Longrightarrow> classify_sibling b f = Extra (extra_type b f) (extra_classifier b f)"
  by (cases "classify_sibling b f")
     (simp_all add: is_extra_def extra_type_def extra_classifier_def)

text \<open>
  C4. After the loop over a folder's listing, the arrays of types and of classifiers are
  as long as the array of files; the files are the listed names that the loop pushed, in
  their order; and at every index the type and the classifier are the ones the loop body
  computes for the file at that index.
\<close>

theorem extras_index_aligned:
  "length (extraTypes (collect_extras b files no_extras)) =
     length (extraFiles (collect_extras b files no_extras)) \<and>
   length (extraClassifiers (collect_extras b files no_extras)) =
     length (extraFiles (collect_extras b files no_extras)) \<and>
   extraFiles (collect_extras b files no_extras) = filter (is_extra b) files \<and>
   (\<forall>i < length (extraFiles (collect_extras b files no_extras)).
      extraFiles (collect_extras b files no_extras) ! i \<in> set files \<and>
      classify_sibling b (extraFiles (collect_extras b files no_extras) ! i) =
        Extra (extraTypes (collect_extras b files no_extras) ! i)
              (extraClassifiers (collect_extras b files no_extras) ! i))"
proof -
  let ?fs = "filter (is_extra b) files"
  have "\<forall>i < length ?fs. ?fs ! i \<in> set files \<and>
          classify_sibling b (?fs ! i) =
            Extra (map (extra_type b) ?fs ! i) (map (extra_classifier b) ?fs ! i)"
  proof (intro allI impI)
    fix i assume i: "i < length ?fs"
    then have "?fs ! i \<in> set ?fs" by (rule nth_mem)
    then have "?fs ! i \<in> set files" and "is_extra b (?fs ! i)" by simp_all
    then show "?fs ! i \<in> set files \<and>
          classify_sibling b (?fs ! i) =
            Extra (map (extra_type b) ?fs ! i) (map (extra_classifier b) ?fs ! i)"
      using i by (simp add: is_extra_verdict)
  qed
  then show ?thesis by (simp add: collect_extras_filter)
qed

theorem extras_index_aligned_witness:
  "extraFiles (collect_extras ''foo'' [''foo.asc'', ''foo.jar'', ''foo-sources.jar''] no_extras) ! 1
     = ''foo-sources.jar'' \<and>
   classify_sibling ''foo'' ''foo-sources.jar'' =
     Extra (extraTypes (collect_extras ''foo'' [''foo.asc'', ''foo.jar'', ''foo-sources.jar'']
                          no_extras) ! 1)
           (extraClassifiers (collect_extras ''foo'' [''foo.asc'', ''foo.jar'', ''foo-sources.jar'']
                                no_extras) ! 1)"
proof -
  let ?ex = "collect_extras ''foo'' [''foo.asc'', ''foo.jar'', ''foo-sources.jar''] no_extras"
  have files: "extraFiles ?ex = [''foo.asc'', ''foo-sources.jar'']" by code_simp
  have "1 < length (extraFiles ?ex)" unfolding files by simp
  with extras_index_aligned [of "''foo''" "[''foo.asc'', ''foo.jar'', ''foo-sources.jar'']"]
  have "classify_sibling ''foo'' (extraFiles ?ex ! 1) =
          Extra (extraTypes ?ex ! 1) (extraClassifiers ?ex ! 1)"
    by blast
  then show ?thesis unfolding files by simp
qed

section \<open>Files the first test of the loop rejects\<close>

lemma filtered_verdict:
  assumes "\<not> startsWith (parsed_name (path_parse f)) b \<or>
           parsed_ext (path_parse f) \<in> {''.pom'', ''.md5'', ''.sha1'', ''.sha256'', ''.sha512''} \<or>
           parsed_ext (path_parse f) = []"
  shows "classify_sibling b f = Skip_filtered"
  using assms by (auto simp add: classify_sibling_def ignoredExts_def Let_def)

text \<open>
  C3. A file whose stem does not start with the base name, or whose extension is
  \<open>.pom\<close>, \<open>.md5\<close>, \<open>.sha1\<close>, \<open>.sha256\<close> or \<open>.sha512\<close>, or that has no extension, leaves
  the loop body at its first \<open>continue\<close>: it is not among the extra files, and the three
  arrays are what they would be had the folder not listed it.
\<close>

theorem rejected_file_never_listed:
  assumes "\<not> startsWith (parsed_name (path_parse f)) b \<or>
           parsed_ext (path_parse f) \<in> {''.pom'', ''.md5'', ''.sha1'', ''.sha256'', ''.sha512''} \<or>
           parsed_ext (path_parse f) = []"
  shows "classify_sibling b f = Skip_filtered \<and>
         f \<notin> set (extraFiles (collect_extras b files no_extras)) \<and>
         collect_extras b files no_extras =
           collect_extras b (filter (\<lambda>g. g \<noteq> f) files) no_extras"
proof -
  have v: "classify_sibling b f = Skip_filtered" using assms by (rule filtered_verdict)
  then have ne: "\<not> is_extra b f" by (simp add: is_extra_def)
  have eq: "filter (is_extra b) (filter (\<lambda>g. g \<noteq> f) files) = filter (is_extra b) files"
    using ne by (induction files) auto
  show ?thesis using v ne by (simp add: collect_extras_filter eq del: filter_filter)
qed

theorem rejected_file_never_listed_witness:
  "parsed_ext (path_parse ''foo.pom.sha1'') = ''.sha1'' \<and>
   ''foo.pom.sha1'' \<notin> set (extraFiles (collect_extras ''foo''
       [''foo.jar'', ''foo.pom.sha1'', ''foo-sources.jar''] no_extras))"
proof -
  have e: "parsed_ext (path_parse ''foo.pom.sha1'') = ''.sha1''" by code_simp
  then have "\<not> startsWith (parsed_name (path_parse ''foo.pom.sha1'')) ''foo'' \<or>
      parsed_ext (path_parse ''foo.pom.sha1'')
        \<in> {''.pom'', ''.md5'', ''.sha1'', ''.sha256'', ''.sha512''} \<or>
      parsed_ext (path_parse ''foo.pom.sha1'') = []"
    by simp
  from rejected_file_never_listed [OF this] e show ?thesis by blast
qed

section \<open>The family \<open>foo\<close>\<close>

text \<open>
  C2. With base name \<open>foo\<close>: \<open>foo.jar\<close> leaves at the main-artifact \<open>continue\<close>;
  \<open>foo-sources.jar\<close> is pushed with type \<open>jar\<close> and classifier \<open>sources\<close>; \<open>foo.asc\<close> is
  pushed with type \<open>asc\<close> and the empty classifier; \<open>foobar.jar\<close> leaves at the
  \<open>continue\<close> for a remainder that does not start with \<open>-\<close>. A folder listing the four
  gives the arrays of the two pushed files.
\<close>

theorem foo_family_classification:
  "classify_sibling ''foo'' ''foo.jar'' = Skip_main_artifact \<and>
   classify_sibling ''foo'' ''foo-sources.jar'' = Extra ''jar'' ''sources'' \<and>
   classify_sibling ''foo'' ''foo.asc'' = Extra ''asc'' [] \<and>
   classify_sibling ''foo'' ''foobar.jar'' = Skip_other_family \<and>
   collect_extras ''foo'' [''foo.jar'', ''foo-sources.jar'', ''foo.asc'', ''foobar.jar'']
       no_extras =
     \<lparr>extraFiles = [''foo-sources.jar'', ''foo.asc''],
      extraTypes = [''jar'', ''asc''],
      extraClassifiers = [''sources'', []]\<rparr>"
proof -
  have 1: "classify_sibling ''foo'' ''foo.jar'' = Skip_main_artifact" by code_simp
  have 2: "classify_sibling ''foo'' ''foo-sources.jar'' = Extra ''jar'' ''sources''"
    by code_simp
  have 3: "classify_sibling ''foo'' ''foo.asc'' = Extra ''asc'' []" by code_simp
  have 4: "classify_sibling ''foo'' ''foobar.jar'' = Skip_other_family" by code_simp
  show ?thesis by (simp add: 1 2 3 4 no_extras_def)
qed

theorem foo_family_classification_witness:
  "is_extra ''foo'' ''foo-sources.jar'' \<and> is_extra ''foo'' ''foo.asc'' \<and>
   is_extra ''foo'' ''foo.jar'' = False \<and> is_extra ''foo'' ''foobar.jar'' = False"
  using foo_family_classification by (simp add: is_extra_def)

section \<open>A name that ends in the separator\<close>

lemma after_last_no_sep: "sep \<notin> set (after_last sep s)"
  unfolding after_last_def using set_takeWhileD by fastforce

lemma parsed_name_no_slash: "CHR ''/'' \<notin> set (parsed_name (path_parse p))"
  using after_last_no_sep [of "CHR ''/''"]
  by (auto simp add: path_parse_def Let_def dest: in_set_takeD)

lemma strip_no_slash:
  assumes "CHR ''/'' \<notin> set s"
  shows "strip_trailing_slashes s = s"
proof (cases "rev s")
  case Nil
  then show ?thesis by (simp add: strip_trailing_slashes_def)
next
  case (Cons c cs)
  then have "c \<in> set s" by (metis list.set_intros(1) set_rev)
  then have "c \<noteq> CHR ''/''" using assms by auto
  then have "dropWhile (\<lambda>c. c = CHR ''/'') (rev s) = rev s" using Cons by simp
  then show ?thesis by (simp add: strip_trailing_slashes_def)
qed

lemma after_last_none:
  assumes "sep \<notin> set s"
  shows "after_last sep s = s"
proof -
  have "takeWhile (\<lambda>c. c \<noteq> sep) (rev s) = rev s"
    using assms by (auto simp add: takeWhile_eq_all_conv)
  then show ?thesis unfolding after_last_def by (simp only: rev_rev_ident)
qed

lemma path_parse_dash_jar:
  assumes "CHR ''/'' \<notin> set b"
  shows "parsed_name (path_parse (b @ ''-.jar'')) = b @ ''-'' \<and>
         parsed_ext (path_parse (b @ ''-.jar'')) = ''.jar''"
proof -
  let ?p = "b @ ''-.jar''"
  have ns: "CHR ''/'' \<notin> set ?p" using assms by simp
  have abs: "(case ?p of [] \<Rightarrow> False | c # _ \<Rightarrow> c = CHR ''/'') = False"
    using assms by (cases b) auto
  have al: "after_last (CHR ''.'') ?p = ''jar''" by (simp add: after_last_def)
  show ?thesis
    unfolding path_parse_def Let_def abs
    using ns assms
    apply (simp add: strip_no_slash after_last_none al del: set_append)
    apply (cases b)
     apply auto
    done
qed

text \<open>
  C10. For the base name \<open>b\<close> of any descriptor path, the file \<open>b-.jar\<close> is not the main
  artifact \<open>b.jar\<close>, yet the loop body strips the separator, finds type \<open>jar\<close> with an
  empty classifier and leaves at the main-artifact \<open>continue\<close>; the file is never among
  the extra files.
\<close>

theorem dash_jar_skipped_as_main:
  "classify_sibling (parsed_name (path_parse pomFile))
     (parsed_name (path_parse pomFile) @ ''-.jar'') = Skip_main_artifact \<and>
   parsed_name (path_parse pomFile) @ ''-.jar'' \<noteq> parsed_name (path_parse pomFile) @ ''.jar'' \<and>
   parsed_name (path_parse pomFile) @ ''-.jar''
     \<notin> set (extraFiles (collect_extras (parsed_name (path_parse pomFile)) files no_extras))"
proof -
  let ?b = "parsed_name (path_parse pomFile)"
  have v: "classify_sibling ?b (?b @ ''-.jar'') = Skip_main_artifact"
    using path_parse_dash_jar [OF parsed_name_no_slash, of pomFile]
    by (simp add: classify_sibling_def Let_def startsWith_def substring_def ignoredExts_def)
  then have "\<not> is_extra ?b (?b @ ''-.jar'')" by (simp add: is_extra_def)
  then show ?thesis using v by (simp add: collect_extras_filter)
qed

theorem dash_jar_skipped_as_main_witness:
  "parsed_name (path_parse ''/repo/foo.pom'') = ''foo'' \<and>
   classify_sibling ''foo'' ''foo-.jar'' = Skip_main_artifact \<and>
   ''foo-.jar'' \<notin> set (extraFiles (collect_extras ''foo'' [''foo-.jar'', ''foo.asc''] no_extras))"
proof -
  have n: "parsed_name (path_parse ''/repo/foo.pom'') = ''foo''" by code_simp
  show ?thesis
    using dash_jar_skipped_as_main [of "''/repo/foo.pom''" "[''foo-.jar'', ''foo.asc'']"] n
    unfolding n append.simps by blast
qed

section \<open>Sequencing and the loop over the descriptors\<close>

lemma fst_bind_r:
  "fst (bind_r m f) = fst m @ (case snd m of Inl e \<Rightarrow> [] | Inr x \<Rightarrow> fst (f x))"
  by (cases m) (auto simp add: bind_r_def split: sum.splits prod.splits)

lemma for_each_continue:
  "body x = (t, Inr u) \<Longrightarrow>
   for_each body (x # xs) = (t @ fst (for_each body xs), snd (for_each body xs))"
  by (simp add: bind_r_def split: prod.splits)

lemma for_each_abort:
  "body x = (t, Inl e) \<Longrightarrow> for_each body (x # xs) = (t, Inl e)"
  by (simp add: bind_r_def)

lemma extra_args_listed:
  "extra_args (collect_extras b files no_extras) = listed_extra_args b files"
  by (simp add: extra_args_def listed_extra_args_def collect_extras_filter)

section \<open>A descriptor without its main artifact\<close>

lemma family_index_missing:
  "\<not> existsSync w (mainArtifact_of pomFile) \<Longrightarrow>
   deploy_family_index w url tmp pomFile =
     ([Warning (''Main artifact not found: '' @ mainArtifact_of pomFile)], Inr ())"
  by (simp add: deploy_family_index_def Let_def mainArtifact_of_def folder_of_def
        basename_of_def emit_def)

lemma family_part000_missing:
  "\<not> existsSync w (mainArtifact_of pomFile) \<Longrightarrow>
   deploy_family_part000 w url u p s pomFile =
     ([Warning (''Main artifact not found: '' @ mainArtifact_of pomFile)], Inr ())"
  by (simp add: deploy_family_part000_def Let_def mainArtifact_of_def folder_of_def
        basename_of_def emit_def)

lemma family_part001_missing:
  "\<not> existsSync w (mainArtifact_of pomFile) \<Longrightarrow>
   deploy_family_part001 w url u p s pomFile =
     ([Warning (''Main artifact not found: '' @ mainArtifact_of pomFile)], Inr ())"
  by (simp add: deploy_family_part001_def Let_def mainArtifact_of_def folder_of_def
        basename_of_def emit_def)

text \<open>
  C5. When \<open>fs.existsSync\<close> finds no \<open>baseName.jar\<close> in the descriptor's folder, the loop
  body of each of the three revisions does one thing, the warning: it runs no \<open>mvn\<close>, it
  ends normally, and the loop goes on with the descriptors that follow.
\<close>

theorem missing_main_artifact_skips_family:
  assumes "\<not> existsSync w (mainArtifact_of pomFile)"
  shows "deploy_family_index w url tmp pomFile =
           ([Warning (''Main artifact not found: '' @ mainArtifact_of pomFile)], Inr ()) \<and>
         deploy_family_part000 w url u p s pomFile =
           ([Warning (''Main artifact not found: '' @ mainArtifact_of pomFile)], Inr ()) \<and>
         deploy_family_part001 w url u p s pomFile =
           ([Warning (''Main artifact not found: '' @ mainArtifact_of pomFile)], Inr ()) \<and>
         for_each (deploy_family_index w url tmp) (pomFile # rest) =
           (Warning (''Main artifact not found: '' @ mainArtifact_of pomFile) #
              fst (for_each (deploy_family_index w url tmp) rest),
            snd (for_each (deploy_family_index w url tmp) rest)) \<and>
         for_each (deploy_family_part000 w url u p s) (pomFile # rest) =
           (Warning (''Main artifact not found: '' @ mainArtifact_of pomFile) #
              fst (for_each (deploy_family_part000 w url u p s) rest),
            snd (for_each (deploy_family_part000 w url u p s) rest)) \<and>
         for_each (deploy_family_part001 w url u p s) (pomFile # rest) =
           (Warning (''Main artifact not found: '' @ mainArtifact_of pomFile) #
              fst (for_each (deploy_family_part001 w url u p s) rest),
            snd (for_each (deploy_family_part001 w url u p s) rest))"
proof -
  have a: "deploy_family_index w url tmp pomFile =
           ([Warning (''Main artifact not found: '' @ mainArtifact_of pomFile)], Inr ())"
    using assms by (rule family_index_missing)
  have b: "deploy_family_part000 w url u p s pomFile =
           ([Warning (''Main artifact not found: '' @ mainArtifact_of pomFile)], Inr ())"
    using assms by (rule family_part000_missing)
  have c: "deploy_family_part001 w url u p s pomFile =
           ([Warning (''Main artifact not found: '' @ mainArtifact_of pomFile)], Inr ())"
    using assms by (rule family_part001_missing)
  show ?thesis
    using a b c
          for_each_continue [of "deploy_family_index w url tmp", OF a, of rest]
          for_each_continue [of "deploy_family_part000 w url u p s", OF b, of rest]
          for_each_continue [of "deploy_family_part001 w url u p s", OF c, of rest]
    by simp
qed

theorem missing_main_artifact_skips_family_witness:
  "existsSync world_no_jar (mainArtifact_of ''/repo/foo.pom'') = False \<and>
   deploy_family_part001 world_no_jar ''https://r.example/m2'' ''user'' ''pass''
       ''/tmp/maven-settings.xml'' ''/repo/foo.pom'' =
     ([Warning ''Main artifact not found: /repo/foo.jar''], Inr ()) \<and>
   filter is_exec_mvn (main_part001 world_no_jar) = [] \<and>
   filter is_set_failed (main_part001 world_no_jar) = []"
proof -
  have m: "mainArtifact_of ''/repo/foo.pom'' = ''/repo/foo.jar''" by code_simp
  have h: "\<not> existsSync world_no_jar (mainArtifact_of ''/repo/foo.pom'')"
    unfolding m by (simp add: world_no_jar_def sample_world_def)
  have r1: "filter is_exec_mvn (main_part001 world_no_jar) = []" by code_simp
  have r2: "filter is_set_failed (main_part001 world_no_jar) = []" by code_simp
  from missing_main_artifact_skips_family [OF h]
  have "deploy_family_part001 world_no_jar ''https://r.example/m2'' ''user'' ''pass''
       ''/tmp/maven-settings.xml'' ''/repo/foo.pom'' =
     ([Warning (''Main artifact not found: '' @ mainArtifact_of ''/repo/foo.pom'')], Inr ())"
    by blast
  then show ?thesis using h r1 r2 unfolding m by simp
qed

section \<open>The probe\<close>

lemma probe_events:
  "fst (artifactExists w g a v url u p) =
     [Info (''Checking existence of artifact: '' @ url @ ''/'' @ artifactPath_of g a v),
      Http_get (url @ ''/'' @ artifactPath_of g a v) (authorization u p)] @
     (case axios_get w (url @ ''/'' @ artifactPath_of g a v) (authorization u p) of
        Resolved status \<Rightarrow>
          if status = 200
          then [Info (''Artifact exists: '' @ url @ ''/'' @ artifactPath_of g a v)] else []
      | Rejected_axios status msg \<Rightarrow>
          if status = Some 404
          then [Info (''Artifact does not exist: '' @ url @ ''/'' @ artifactPath_of g a v)]
          else [Warning (''Failed to check artifact existence: '' @ msg)]
      | Rejected_other msg \<Rightarrow> [Warning (''Failed to check artifact existence: '' @ msg)])"
  by (simp add: artifactExists_def authorization_def Let_def bind_r_def emit_def ret_def
           split: http_outcome.splits)

lemma probe_value:
  "snd (artifactExists w g a v url u p) =
     Inr (axios_get w (url @ ''/'' @ artifactPath_of g a v) (authorization u p) = Resolved 200)"
  by (simp add: artifactExists_def authorization_def Let_def bind_r_def emit_def ret_def
           split: http_outcome.splits)

text \<open>
  C6, as the code has it. The probe never throws: it returns a boolean for every
  outcome of the GET. The boolean is true exactly when the promise resolves with status
  200. A resolved response with any other status gives false and logs nothing more; an
  axios error whose response has status 404 gives false with an informational line; every
  other rejection gives false after one warning that carries the error's message.
\<close>

theorem probe_outcomes:
  "artifactExists w g a v url u p =
     ([Info (''Checking existence of artifact: '' @ url @ ''/'' @ artifactPath_of g a v),
       Http_get (url @ ''/'' @ artifactPath_of g a v) (authorization u p)] @
      (case axios_get w (url @ ''/'' @ artifactPath_of g a v) (authorization u p) of
         Resolved status \<Rightarrow>
           if status = 200
           then [Info (''Artifact exists: '' @ url @ ''/'' @ artifactPath_of g a v)] else []
       | Rejected_axios status msg \<Rightarrow>
           if status = Some 404
           then [Info (''Artifact does not exist: '' @ url @ ''/'' @ artifactPath_of g a v)]
           else [Warning (''Failed to check artifact existence: '' @ msg)]
       | Rejected_other msg \<Rightarrow> [Warning (''Failed to check artifact existence: '' @ msg)]),
      Inr (axios_get w (url @ ''/'' @ artifactPath_of g a v) (authorization u p) = Resolved 200))"
  using probe_events [of w g a v url u p] probe_value [of w g a v url u p]
  by (metis prod.collapse)

theorem probe_outcomes_witness:
  "artifactExists world_unreachable ''com.example'' ''foo'' ''1.0'' ''https://r.example/m2''
       ''user'' ''pass'' =
     ([Info ''Checking existence of artifact: https://r.example/m2/com/example/foo/1.0/foo-1.0.jar'',
       Http_get ''https://r.example/m2/com/example/foo/1.0/foo-1.0.jar''
         [(''Authorization'', ''Basic dXNlcjpwYXNz'')],
       Warning ''Failed to check artifact existence: connect ECONNREFUSED 10.0.0.1:443''],
      Inr False)"
proof -
  have p: "artifactPath_of ''com.example'' ''foo'' ''1.0'' = ''com/example/foo/1.0/foo-1.0.jar''"
    by code_simp
  have h: "authorization ''user'' ''pass'' = [(''Authorization'', ''Basic dXNlcjpwYXNz'')]"
    by code_simp
  have g: "axios_get world_unreachable
             (''https://r.example/m2'' @ ''/'' @ ''com/example/foo/1.0/foo-1.0.jar'')
             [(''Authorization'', ''Basic dXNlcjpwYXNz'')] =
           Rejected_axios None ''connect ECONNREFUSED 10.0.0.1:443''"
    by (simp add: world_unreachable_def sample_world_def)
  show ?thesis
    using probe_outcomes [of world_unreachable "''com.example''" "''foo''" "''1.0''"
            "''https://r.example/m2''" "''user''" "''pass''"]
    unfolding p h g by simp
qed

text \<open>
  The claim as the specification words it, every response of the 200 class giving true,
  fails at status 204, which axios resolves like any status from 200 to 299.
\<close>

theorem probe_status_204_counterexample:
  "artifactExists world_204 ''com.example'' ''foo'' ''1.0'' ''https://r.example/m2''
       ''user'' ''pass'' =
     ([Info ''Checking existence of artifact: https://r.example/m2/com/example/foo/1.0/foo-1.0.jar'',
       Http_get ''https://r.example/m2/com/example/foo/1.0/foo-1.0.jar''
         [(''Authorization'', ''Basic dXNlcjpwYXNz'')]],
      Inr False)"
  by code_simp

text \<open>
  C7. The probe issues one GET. Its URL is the repository URL, a slash, the group id
  with every dot turned into a slash, and \<open>/artifactId/version/artifactId-version.jar\<close>;
  its only header is \<open>Authorization\<close>, the word \<open>Basic\<close> and the Base64 form of
  \<open>username:password\<close>. Turning dots into slashes keeps the length and changes no other
  character.
\<close>

theorem probe_single_get:
  "filter is_http_get (fst (artifactExists w groupId artifactId version repositoryUrl u p)) =
     [Http_get (repositoryUrl @ ''/'' @ replace_dots groupId @ ''/'' @ artifactId @ ''/'' @
                version @ ''/'' @ artifactId @ ''-'' @ version @ ''.jar'')
        [(''Authorization'', ''Basic '' @ base64 (u @ '':'' @ p))]] \<and>
   length (replace_dots groupId) = length groupId \<and>
   (\<forall>i < length groupId.
      replace_dots groupId ! i = (if groupId ! i = CHR ''.'' then CHR ''/'' else groupId ! i))"
  by (simp add: artifactExists_def artifactPath_of_def replace_dots_def Let_def bind_r_def
        emit_def ret_def is_http_get_def split: http_outcome.splits)

theorem probe_single_get_witness:
  "filter is_http_get
     (fst (artifactExists world_400_absent ''com.example'' ''foo'' ''1.0''
             ''https://r.example/m2'' ''user'' ''pass'')) =
     [Http_get ''https://r.example/m2/com/example/foo/1.0/foo-1.0.jar''
        [(''Authorization'', ''Basic dXNlcjpwYXNz'')]] \<and>
   replace_dots ''com.example'' ! 3 = CHR ''/''"
proof -
  have d: "replace_dots ''com.example'' = ''com/example''" by code_simp
  have b: "base64 (''user'' @ '':'' @ ''pass'') = ''dXNlcjpwYXNz''" by code_simp
  have "filter is_http_get
     (fst (artifactExists world_400_absent ''com.example'' ''foo'' ''1.0''
             ''https://r.example/m2'' ''user'' ''pass'')) =
     [Http_get (''https://r.example/m2'' @ ''/'' @ replace_dots ''com.example'' @ ''/'' @
                ''foo'' @ ''/'' @ ''1.0'' @ ''/'' @ ''foo'' @ ''-'' @ ''1.0'' @ ''.jar'')
        [(''Authorization'', ''Basic '' @ base64 (''user'' @ '':'' @ ''pass''))]]"
    using probe_single_get [of world_400_absent "''com.example''" "''foo''" "''1.0''"
            "''https://r.example/m2''" "''user''" "''pass''"]
    by blast
  then show ?thesis unfolding d b by simp
qed

section \<open>The cache around the loop\<close>

lemma probe_no_cache_call: "filter is_cache_call (fst (artifactExists w g a v url u p)) = []"
  by (simp add: probe_events is_cache_call_def split: http_outcome.splits)

lemma catch_no_cache_call:
  "filter is_cache_call (fst (deploy_catch_part001 w url u p pomFile out err error)) = []"
  by (auto simp add: deploy_catch_part001_def Let_def fst_bind_r lift_def throw_def ret_def
        emit_def probe_no_cache_call is_cache_call_def
        split: sum.splits option.splits)

lemma family_part000_no_cache_call:
  "filter is_cache_call (fst (deploy_family_part000 w url u p s pomFile)) = []"
  by (auto simp add: deploy_family_part000_def Let_def fst_bind_r lift_def lift_unit_def emit_def
        is_cache_call_def split: sum.splits option.splits)

lemma family_part001_no_cache_call:
  "filter is_cache_call (fst (deploy_family_part001 w url u p s pomFile)) = []"
  by (auto simp add: deploy_family_part001_def Let_def fst_bind_r lift_def ret_def emit_def
        catch_no_cache_call is_cache_call_def split: sum.splits option.splits)

lemma for_each_no_cache_call:
  assumes "\<And>x. filter is_cache_call (fst (body x)) = []"
  shows "filter is_cache_call (fst (for_each body xs)) = []"
proof (induction xs)
  case Nil
  show ?case by (simp add: ret_def)
next
  case (Cons x xs)
  show ?case by (simp add: fst_bind_r assms Cons.IH split: sum.splits)
qed

lemma main_part001_shape:
  assumes "writeFileSync w (mavenSettings_of (tempDir_of w)) settings_xml_part001 = None"
      and "restoreCache w (cachedPaths_of w) (primaryCacheKey_of w) = Inr m"
  shows "main_part001 w =
     [Set_secret (getInput w ''remote-repository-password''),
      Debug (''Found pom files: '' @
             array_to_string (globSync w ''**/*.pom'' (getInput w ''local-repository-path''))),
      Write_file (mavenSettings_of (tempDir_of w)) settings_xml_part001,
      Restore_cache (cachedPaths_of w) (primaryCacheKey_of w),
      restore_message m] @
     fst (loop_part001 w) @
     (case snd (loop_part001 w) of
        Inl (Error_obj msg) \<Rightarrow> [Set_failed msg]
      | Inl Other_value \<Rightarrow> []
      | Inr _ \<Rightarrow>
          Save_cache (cachedPaths_of w) (primaryCacheKey_of w) #
          (case saveCache w (cachedPaths_of w) (primaryCacheKey_of w) of
             None \<Rightarrow> [Info (''Cache saved with the key: '' @ primaryCacheKey_of w)]
           | Some (Error_obj msg) \<Rightarrow> [Set_failed msg]
           | Some Other_value \<Rightarrow> []))"
proof -
  obtain t r where l: "loop_part001 w = (t, r)" by (cases "loop_part001 w")
  show ?thesis
    using assms l
    by (simp add: main_part001_def Let_def catch_main_def bind_r_def emit_def lift_def
          lift_unit_def mavenSettings_of_def [symmetric] loop_part001_def [symmetric]
          split: sum.splits option.splits thrown.splits prod.splits)
qed

lemma main_part000_shape:
  assumes "writeFileSync w (mavenSettings_of (tempDir_of w)) settings_xml_part000 = None"
      and "restoreCache w (cachedPaths_of w) (primaryCacheKey_of w) = Inr m"
  shows "main_part000 w =
     [Set_secret (getInput w ''remote-repository-password''),
      Debug (''Found pom files: '' @
             array_to_string (globSync w ''**/*.pom'' (getInput w ''local-repository-path''))),
      Write_file (mavenSettings_of (tempDir_of w)) settings_xml_part000,
      Restore_cache (cachedPaths_of w) (primaryCacheKey_of w),
      restore_message m] @
     fst (loop_part000 w) @
     (case snd (loop_part000 w) of
        Inl (Error_obj msg) \<Rightarrow> [Set_failed msg]
      | Inl Other_value \<Rightarrow> []
      | Inr _ \<Rightarrow>
          Save_cache (cachedPaths_of w) (primaryCacheKey_of w) #
          (case saveCache w (cachedPaths_of w) (primaryCacheKey_of w) of
             None \<Rightarrow> [Info (''Cache saved with the key: '' @ primaryCacheKey_of w)]
           | Some (Error_obj msg) \<Rightarrow> [Set_failed msg]
           | Some Other_value \<Rightarrow> []))"
proof -
  obtain t r where l: "loop_part000 w = (t, r)" by (cases "loop_part000 w")
  show ?thesis
    using assms l
    by (simp add: main_part000_def Let_def catch_main_def bind_r_def emit_def lift_def
          lift_unit_def mavenSettings_of_def [symmetric] loop_part000_def [symmetric]
          split: sum.splits option.splits thrown.splits prod.splits)
qed

lemma restore_message_no_cache_call: "is_cache_call (restore_message m) = False"
  by (simp add: restore_message_def is_cache_call_def split: option.splits)

lemma probe_no_set_failed: "filter is_set_failed (fst (artifactExists w g a v url u p)) = []"
  by (simp add: probe_events is_set_failed_def split: http_outcome.splits)

lemma catch_no_set_failed:
  "filter is_set_failed (fst (deploy_catch_part001 w url u p pomFile out err error)) = []"
  by (auto simp add: deploy_catch_part001_def Let_def fst_bind_r lift_def throw_def ret_def
        emit_def probe_no_set_failed is_set_failed_def
        split: sum.splits option.splits)

lemma family_part000_no_set_failed:
  "filter is_set_failed (fst (deploy_family_part000 w url u p s pomFile)) = []"
  by (auto simp add: deploy_family_part000_def Let_def fst_bind_r lift_def lift_unit_def emit_def
        is_set_failed_def split: sum.splits option.splits)

lemma family_part001_no_set_failed:
  "filter is_set_failed (fst (deploy_family_part001 w url u p s pomFile)) = []"
  by (auto simp add: deploy_family_part001_def Let_def fst_bind_r lift_def ret_def emit_def
        catch_no_set_failed is_set_failed_def split: sum.splits option.splits)

lemma for_each_no_set_failed:
  assumes "\<And>x. filter is_set_failed (fst (body x)) = []"
  shows "filter is_set_failed (fst (for_each body xs)) = []"
proof (induction xs)
  case Nil
  show ?case by (simp add: ret_def)
next
  case (Cons x xs)
  show ?case by (simp add: fst_bind_r assms Cons.IH split: sum.splits)
qed

lemma restore_message_no_set_failed: "is_set_failed (restore_message m) = False"
  by (simp add: restore_message_def is_set_failed_def split: option.splits)

text \<open>
  C8, as the code has it. In both revisions that use the cache, once the settings file
  is written and the restore call has returned, the run calls the cache exactly as
  follows: one restore, and then one save of the same paths under the same key if the
  loop over the descriptors ended without a thrown value, and no save at all if a value
  thrown in the loop reached the \<open>catch\<close> of \<open>main\<close>. In that second case the run
  is marked failed, by one \<open>setFailed\<close> with the message, when the thrown value is an
  \<open>Error\<close>; a thrown value that is not an \<open>Error\<close> is dropped without a report. When
  the loop ended normally, \<open>setFailed\<close> is called only if the save itself throws an
  \<open>Error\<close>.
\<close>

theorem cache_saved_iff_loop_completes:
  assumes "writeFileSync w (mavenSettings_of (tempDir_of w)) settings_xml_part001 = None"
      and "writeFileSync w (mavenSettings_of (tempDir_of w)) settings_xml_part000 = None"
      and "restoreCache w (cachedPaths_of w) (primaryCacheKey_of w) = Inr m"
  shows "filter is_cache_call (main_part001 w) =
           Restore_cache (cachedPaths_of w) (primaryCacheKey_of w) #
           (case snd (loop_part001 w) of
              Inl e \<Rightarrow> []
            | Inr u \<Rightarrow> [Save_cache (cachedPaths_of w) (primaryCacheKey_of w)]) \<and>
         filter is_cache_call (main_part000 w) =
           Restore_cache (cachedPaths_of w) (primaryCacheKey_of w) #
           (case snd (loop_part000 w) of
              Inl e \<Rightarrow> []
            | Inr u \<Rightarrow> [Save_cache (cachedPaths_of w) (primaryCacheKey_of w)]) \<and>
         filter is_set_failed (main_part001 w) =
           (case snd (loop_part001 w) of
              Inl (Error_obj msg) \<Rightarrow> [Set_failed msg]
            | Inl Other_value \<Rightarrow> []
            | Inr u \<Rightarrow>
                (case saveCache w (cachedPaths_of w) (primaryCacheKey_of w) of
                   None \<Rightarrow> []
                 | Some (Error_obj msg) \<Rightarrow> [Set_failed msg]
                 | Some Other_value \<Rightarrow> [])) \<and>
         filter is_set_failed (main_part000 w) =
           (case snd (loop_part000 w) of
              Inl (Error_obj msg) \<Rightarrow> [Set_failed msg]
            | Inl Other_value \<Rightarrow> []
            | Inr u \<Rightarrow>
                (case saveCache w (cachedPaths_of w) (primaryCacheKey_of w) of
                   None \<Rightarrow> []
                 | Some (Error_obj msg) \<Rightarrow> [Set_failed msg]
                 | Some Other_value \<Rightarrow> []))"
proof -
  have f1: "filter is_set_failed (fst (loop_part001 w)) = []"
    unfolding loop_part001_def
    by (rule for_each_no_set_failed) (rule family_part001_no_set_failed)
  have f0: "filter is_set_failed (fst (loop_part000 w)) = []"
    unfolding loop_part000_def
    by (rule for_each_no_set_failed) (rule family_part000_no_set_failed)
  have c: "filter is_set_failed (main_part001 w) =
           (case snd (loop_part001 w) of
              Inl (Error_obj msg) \<Rightarrow> [Set_failed msg]
            | Inl Other_value \<Rightarrow> []
            | Inr u \<Rightarrow>
                (case saveCache w (cachedPaths_of w) (primaryCacheKey_of w) of
                   None \<Rightarrow> []
                 | Some (Error_obj msg) \<Rightarrow> [Set_failed msg]
                 | Some Other_value \<Rightarrow> []))"
    by (simp add: main_part001_shape [OF assms(1) assms(3)] f1 restore_message_no_set_failed)
       (simp add: is_set_failed_def split: sum.splits option.splits thrown.splits)
  have d: "filter is_set_failed (main_part000 w) =
           (case snd (loop_part000 w) of
              Inl (Error_obj msg) \<Rightarrow> [Set_failed msg]
            | Inl Other_value \<Rightarrow> []
            | Inr u \<Rightarrow>
                (case saveCache w (cachedPaths_of w) (primaryCacheKey_of w) of
                   None \<Rightarrow> []
                 | Some (Error_obj msg) \<Rightarrow> [Set_failed msg]
                 | Some Other_value \<Rightarrow> []))"
    by (simp add: main_part000_shape [OF assms(2) assms(3)] f0 restore_message_no_set_failed)
       (simp add: is_set_failed_def split: sum.splits option.splits thrown.splits)
  have l1: "filter is_cache_call (fst (loop_part001 w)) = []"
    unfolding loop_part001_def
    by (rule for_each_no_cache_call) (rule family_part001_no_cache_call)
  have l0: "filter is_cache_call (fst (loop_part000 w)) = []"
    unfolding loop_part000_def
    by (rule for_each_no_cache_call) (rule family_part000_no_cache_call)
  have a: "filter is_cache_call (main_part001 w) =
           Restore_cache (cachedPaths_of w) (primaryCacheKey_of w) #
           (case snd (loop_part001 w) of
              Inl e \<Rightarrow> []
            | Inr u \<Rightarrow> [Save_cache (cachedPaths_of w) (primaryCacheKey_of w)])"
    by (simp add: main_part001_shape [OF assms(1) assms(3)] l1 restore_message_no_cache_call)
       (simp add: is_cache_call_def split: sum.splits option.splits thrown.splits)
  have b: "filter is_cache_call (main_part000 w) =
           Restore_cache (cachedPaths_of w) (primaryCacheKey_of w) #
           (case snd (loop_part000 w) of
              Inl e \<Rightarrow> []
            | Inr u \<Rightarrow> [Save_cache (cachedPaths_of w) (primaryCacheKey_of w)])"
    by (simp add: main_part000_shape [OF assms(2) assms(3)] l0 restore_message_no_cache_call)
       (simp add: is_cache_call_def split: sum.splits option.splits thrown.splits)
  show ?thesis using a b c d by blast
qed

theorem cache_saved_iff_loop_completes_witness:
  "writeFileSync world_ok (mavenSettings_of (tempDir_of world_ok)) settings_xml_part001 = None \<and>
   writeFileSync world_ok (mavenSettings_of (tempDir_of world_ok)) settings_xml_part000 = None \<and>
   restoreCache world_ok (cachedPaths_of world_ok) (primaryCacheKey_of world_ok) = Inr None \<and>
   snd (loop_part001 world_ok) = Inr () \<and>
   filter is_cache_call (main_part001 world_ok) =
     [Restore_cache [''/home/u/.m2/repository''] ''maven-publish-Linux'',
      Save_cache [''/home/u/.m2/repository''] ''maven-publish-Linux''] \<and>
   filter is_set_failed (main_part001 world_ok) = [] \<and>
   snd (loop_part000 world_broken) =
     Inl (Error_obj ''The process mvn failed with exit code 1'') \<and>
   filter is_cache_call (main_part000 world_broken) =
     [Restore_cache [''/home/u/.m2/repository''] ''maven-publish-Linux''] \<and>
   filter is_set_failed (main_part000 world_broken) =
     [Set_failed ''The process mvn failed with exit code 1'']"
proof -
  have h1: "writeFileSync world_ok (mavenSettings_of (tempDir_of world_ok))
              settings_xml_part001 = None"
    by (simp add: world_ok_def sample_world_def)
  have h2: "writeFileSync world_ok (mavenSettings_of (tempDir_of world_ok))
              settings_xml_part000 = None"
    by (simp add: world_ok_def sample_world_def)
  have h3: "restoreCache world_ok (cachedPaths_of world_ok) (primaryCacheKey_of world_ok) =
              Inr None"
    by (simp add: world_ok_def sample_world_def)
  have l: "snd (loop_part001 world_ok) = Inr ()" by code_simp
  have c: "cachedPaths_of world_ok = [''/home/u/.m2/repository'']" by code_simp
  have k: "primaryCacheKey_of world_ok = ''maven-publish-Linux''" by code_simp
  have sv: "saveCache world_ok [''/home/u/.m2/repository''] ''maven-publish-Linux'' = None"
    by (simp add: world_ok_def sample_world_def)
  note ok = cache_saved_iff_loop_completes [OF h1 h2 h3]
  from ok
  have "filter is_cache_call (main_part001 world_ok) =
           Restore_cache (cachedPaths_of world_ok) (primaryCacheKey_of world_ok) #
           (case snd (loop_part001 world_ok) of
              Inl e \<Rightarrow> []
            | Inr u \<Rightarrow> [Save_cache (cachedPaths_of world_ok) (primaryCacheKey_of world_ok)])"
    by blast
  then have r1: "filter is_cache_call (main_part001 world_ok) =
     [Restore_cache [''/home/u/.m2/repository''] ''maven-publish-Linux'',
      Save_cache [''/home/u/.m2/repository''] ''maven-publish-Linux'']"
    unfolding l c k by simp
  from ok
  have "filter is_set_failed (main_part001 world_ok) =
           (case snd (loop_part001 world_ok) of
              Inl (Error_obj msg) \<Rightarrow> [Set_failed msg]
            | Inl Other_value \<Rightarrow> []
            | Inr u \<Rightarrow>
                (case saveCache world_ok (cachedPaths_of world_ok)
                        (primaryCacheKey_of world_ok) of
                   None \<Rightarrow> []
                 | Some (Error_obj msg) \<Rightarrow> [Set_failed msg]
                 | Some Other_value \<Rightarrow> []))"
    by blast
  then have r2: "filter is_set_failed (main_part001 world_ok) = []"
    unfolding l c k sv by simp

  have g1: "writeFileSync world_broken (mavenSettings_of (tempDir_of world_broken))
              settings_xml_part001 = None"
    by (simp add: world_broken_def sample_world_def)
  have g2: "writeFileSync world_broken (mavenSettings_of (tempDir_of world_broken))
              settings_xml_part000 = None"
    by (simp add: world_broken_def sample_world_def)
  have g3: "restoreCache world_broken (cachedPaths_of world_broken)
              (primaryCacheKey_of world_broken) = Inr None"
    by (simp add: world_broken_def sample_world_def)
  have lb: "snd (loop_part000 world_broken) =
              Inl (Error_obj ''The process mvn failed with exit code 1'')"
    by code_simp
  have cb: "cachedPaths_of world_broken = [''/home/u/.m2/repository'']" by code_simp
  have kb: "primaryCacheKey_of world_broken = ''maven-publish-Linux''" by code_simp
  note broken = cache_saved_iff_loop_completes [OF g1 g2 g3]
  from broken
  have "filter is_cache_call (main_part000 world_broken) =
           Restore_cache (cachedPaths_of world_broken) (primaryCacheKey_of world_broken) #
           (case snd (loop_part000 world_broken) of
              Inl e \<Rightarrow> []
            | Inr u \<Rightarrow>
                [Save_cache (cachedPaths_of world_broken) (primaryCacheKey_of world_broken)])"
    by blast
  then have r3: "filter is_cache_call (main_part000 world_broken) =
     [Restore_cache [''/home/u/.m2/repository''] ''maven-publish-Linux'']"
    unfolding lb cb kb by simp
  from broken
  have "filter is_set_failed (main_part000 world_broken) =
           (case snd (loop_part000 world_broken) of
              Inl (Error_obj msg) \<Rightarrow> [Set_failed msg]
            | Inl Other_value \<Rightarrow> []
            | Inr u \<Rightarrow>
                (case saveCache world_broken (cachedPaths_of world_broken)
                        (primaryCacheKey_of world_broken) of
                   None \<Rightarrow> []
                 | Some (Error_obj msg) \<Rightarrow> [Set_failed msg]
                 | Some Other_value \<Rightarrow> []))"
    by blast
  then have r4: "filter is_set_failed (main_part000 world_broken) =
     [Set_failed ''The process mvn failed with exit code 1'']"
    unfolding lb by simp
  show ?thesis using h1 h2 h3 l r1 r2 lb r3 r4 by blast
qed

text \<open>
  The claim as the specification words it, a save whether or not the deploys succeeded,
  fails when \<open>mvn\<close> fails without the 400 signature: in both revisions the cache is
  restored, the failure ends the run, and no save is made.
\<close>

theorem cache_not_saved_counterexample:
  "out_failure mvn_broken = Some (Error_obj ''The process mvn failed with exit code 1'') \<and>
   filter is_cache_call (main_part001 world_broken) =
     [Restore_cache [''/home/u/.m2/repository''] ''maven-publish-Linux''] \<and>
   filter is_cache_call (main_part000 world_broken) =
     [Restore_cache [''/home/u/.m2/repository''] ''maven-publish-Linux''] \<and>
   filter is_set_failed (main_part001 world_broken) =
     [Set_failed ''The process mvn failed with exit code 1''] \<and>
   filter is_set_failed (main_part000 world_broken) =
     [Set_failed ''The process mvn failed with exit code 1'']"
proof -
  have 1: "out_failure mvn_broken = Some (Error_obj ''The process mvn failed with exit code 1'')"
    by (simp add: mvn_broken_def)
  have 2: "filter is_cache_call (main_part001 world_broken) =
     [Restore_cache [''/home/u/.m2/repository''] ''maven-publish-Linux'']"
    by code_simp
  have 3: "filter is_cache_call (main_part000 world_broken) =
     [Restore_cache [''/home/u/.m2/repository''] ''maven-publish-Linux'']"
    by code_simp
  have 4: "filter is_set_failed (main_part001 world_broken) =
     [Set_failed ''The process mvn failed with exit code 1'']"
    by code_simp
  have 5: "filter is_set_failed (main_part000 world_broken) =
     [Set_failed ''The process mvn failed with exit code 1'']"
    by code_simp
  show ?thesis using 1 2 3 4 5 by blast
qed

section \<open>The invocation of a family\<close>

lemma family_index_present:
  assumes "existsSync w (mainArtifact_of pomFile)"
      and "readdirSync w (folder_of pomFile) = Inr files"
  shows "deploy_family_index w url tmp pomFile =
     ([Exec_mvn (cmd_index (mavenSettings_of tmp) url pomFile (mainArtifact_of pomFile) @
                 listed_extra_args (basename_of pomFile) files) (folder_of pomFile) None],
      (case out_failure
              (exec_mvn w (cmd_index (mavenSettings_of tmp) url pomFile (mainArtifact_of pomFile) @
                           listed_extra_args (basename_of pomFile) files) (folder_of pomFile)) of
         None \<Rightarrow> Inr ()
       | Some e \<Rightarrow> Inl e))"
  using assms
  by (simp add: deploy_family_index_def Let_def mainArtifact_of_def folder_of_def
        basename_of_def mavenSettings_of_def emit_def lift_def lift_unit_def bind_r_def
        extra_args_listed split: option.splits)

lemma family_part000_present:
  assumes "existsSync w (mainArtifact_of pomFile)"
      and "readdirSync w (folder_of pomFile) = Inr files"
  shows "deploy_family_part000 w url u p s pomFile =
     ([Exec_mvn (cmd_part000 s url pomFile (mainArtifact_of pomFile) @
                 listed_extra_args (basename_of pomFile) files) (folder_of pomFile)
         (Some (credentials_env u p))],
      (case out_failure
              (exec_mvn w (cmd_part000 s url pomFile (mainArtifact_of pomFile) @
                           listed_extra_args (basename_of pomFile) files) (folder_of pomFile)) of
         None \<Rightarrow> Inr ()
       | Some e \<Rightarrow> Inl e))"
  using assms
  by (simp add: deploy_family_part000_def Let_def mainArtifact_of_def folder_of_def
        basename_of_def emit_def lift_def lift_unit_def bind_r_def
        extra_args_listed split: option.splits)

lemma family_part001_present:
  assumes "existsSync w (mainArtifact_of pomFile)"
      and "readdirSync w (folder_of pomFile) = Inr files"
      and "exec_mvn w (cmd_part001 s url pomFile (mainArtifact_of pomFile) @
                       listed_extra_args (basename_of pomFile) files) (folder_of pomFile) = out"
  shows "deploy_family_part001 w url u p s pomFile =
     (Exec_mvn (cmd_part001 s url pomFile (mainArtifact_of pomFile) @
                listed_extra_args (basename_of pomFile) files) (folder_of pomFile)
         (Some (credentials_env u p)) #
      fst (case out_failure out of
             None \<Rightarrow> ret ()
           | Some error \<Rightarrow>
               deploy_catch_part001 w url u p pomFile (out_stdout out) (out_stderr out) error),
      snd (case out_failure out of
             None \<Rightarrow> ret ()
           | Some error \<Rightarrow>
               deploy_catch_part001 w url u p pomFile (out_stdout out) (out_stderr out) error))"
  using assms
  by (simp add: deploy_family_part001_def Let_def mainArtifact_of_def folder_of_def
        basename_of_def emit_def lift_def bind_r_def
        extra_args_listed split: option.splits prod.splits)

lemma probe_no_exec: "filter is_exec_mvn (fst (artifactExists w g a v url u p)) = []"
  by (simp add: probe_events is_exec_mvn_def split: http_outcome.splits)

lemma catch_no_exec:
  "filter is_exec_mvn (fst (deploy_catch_part001 w url u p pomFile out err error)) = []"
  by (auto simp add: deploy_catch_part001_def Let_def fst_bind_r lift_def throw_def ret_def
        emit_def probe_no_exec is_exec_mvn_def
        split: sum.splits option.splits)

text \<open>
  C9, as the code has it. For a descriptor whose main artifact exists and whose folder
  can be listed, each revision runs \<open>mvn\<close> once, in the descriptor's folder, with the
  arguments below. All three pass the settings file, the goal
  \<open>org.apache.maven.plugins:maven-deploy-plugin:deploy-file\<close>, the four checksum
  algorithms, the retry count 3, the remote URL, the descriptor and the main artifact; the
  two later revisions start with \<open>--batch-mode\<close>, the first revision has no such flag. The
  three joined arguments follow exactly when some listed file is an extra artifact, each
  joined over the same files in the order of the listing.
\<close>

theorem deploy_invocation_arguments:
  assumes "existsSync w (mainArtifact_of pomFile)"
      and "readdirSync w (folder_of pomFile) = Inr files"
  shows "filter is_exec_mvn (fst (deploy_family_index w url tmp pomFile)) =
           [Exec_mvn
              ([''-s'', mavenSettings_of tmp,
                ''org.apache.maven.plugins:maven-deploy-plugin:deploy-file'',
                ''-Daether.checksums.algorithms=MD5,SHA-1,SHA-256,SHA-512'',
                ''-DretryFailedDeploymentCount=3'',
                ''-Durl='' @ url, ''-DpomFile='' @ pomFile,
                ''-Dfile='' @ mainArtifact_of pomFile] @
               listed_extra_args (basename_of pomFile) files)
              (folder_of pomFile) None] \<and>
         filter is_exec_mvn (fst (deploy_family_part000 w url u p s pomFile)) =
           [Exec_mvn
              ([''--batch-mode'', ''--settings'', s,
                ''org.apache.maven.plugins:maven-deploy-plugin:deploy-file'',
                ''-Daether.checksums.algorithms=MD5,SHA-1,SHA-256,SHA-512'',
                ''-DretryFailedDeploymentCount=3'',
                ''-Durl='' @ url, ''-DpomFile='' @ pomFile,
                ''-Dfile='' @ mainArtifact_of pomFile] @
               listed_extra_args (basename_of pomFile) files)
              (folder_of pomFile) (Some (credentials_env u p))] \<and>
         filter is_exec_mvn (fst (deploy_family_part001 w url u p s pomFile)) =
           [Exec_mvn
              ([''--batch-mode'', ''--color'', ''always'',
                ''-Dorg.slf4j.simpleLogger.showDateTime=true'',
                ''-Dorg.slf4j.simpleLogger.dateTimeFormat=HH:mm:ss,SSS'',
                ''--settings'', s,
                ''org.apache.maven.plugins:maven-deploy-plugin:deploy-file'',
                ''-Daether.checksums.algorithms=MD5,SHA-1,SHA-256,SHA-512'',
                ''-DretryFailedDeploymentCount=3'',
                ''-Durl='' @ url, ''-DpomFile='' @ pomFile,
                ''-Dfile='' @ mainArtifact_of pomFile] @
               listed_extra_args (basename_of pomFile) files)
              (folder_of pomFile) (Some (credentials_env u p))] \<and>
         (listed_extra_args (basename_of pomFile) files = []) =
           (filter (is_extra (basename_of pomFile)) files = [])"
proof -
  have a: "filter is_exec_mvn (fst (deploy_family_index w url tmp pomFile)) =
           [Exec_mvn (cmd_index (mavenSettings_of tmp) url pomFile (mainArtifact_of pomFile) @
                      listed_extra_args (basename_of pomFile) files) (folder_of pomFile) None]"
    by (simp add: family_index_present [OF assms] is_exec_mvn_def)
  have b: "filter is_exec_mvn (fst (deploy_family_part000 w url u p s pomFile)) =
           [Exec_mvn (cmd_part000 s url pomFile (mainArtifact_of pomFile) @
                      listed_extra_args (basename_of pomFile) files) (folder_of pomFile)
              (Some (credentials_env u p))]"
    by (simp add: family_part000_present [OF assms] is_exec_mvn_def)
  have c: "filter is_exec_mvn (fst (deploy_family_part001 w url u p s pomFile)) =
           [Exec_mvn (cmd_part001 s url pomFile (mainArtifact_of pomFile) @
                      listed_extra_args (basename_of pomFile) files) (folder_of pomFile)
              (Some (credentials_env u p))]"
    by (simp add: family_part001_present [OF assms refl] catch_no_exec ret_def
          split: option.splits)
       (simp add: is_exec_mvn_def)
  have d: "(listed_extra_args (basename_of pomFile) files = []) =
           (filter (is_extra (basename_of pomFile)) files = [])"
    by (simp add: listed_extra_args_def)
  show ?thesis
    using a b c d by (simp add: cmd_index_def cmd_part000_def cmd_part001_def)
qed

theorem deploy_invocation_arguments_witness:
  "existsSync world_ok (mainArtifact_of ''/repo/foo.pom'') \<and>
   readdirSync world_ok (folder_of ''/repo/foo.pom'') =
     Inr [''foo.asc'', ''foo.jar'', ''foo.pom'', ''foo.pom.sha1'', ''foo-sources.jar'',
          ''foobar.jar''] \<and>
   filter is_exec_mvn
     (fst (deploy_family_part001 world_ok ''https://r.example/m2'' ''user'' ''pass''
             ''/tmp/maven-settings.xml'' ''/repo/foo.pom'')) =
     [Exec_mvn
        [''--batch-mode'', ''--color'', ''always'',
         ''-Dorg.slf4j.simpleLogger.showDateTime=true'',
         ''-Dorg.slf4j.simpleLogger.dateTimeFormat=HH:mm:ss,SSS'',
         ''--settings'', ''/tmp/maven-settings.xml'',
         ''org.apache.maven.plugins:maven-deploy-plugin:deploy-file'',
         ''-Daether.checksums.algorithms=MD5,SHA-1,SHA-256,SHA-512'',
         ''-DretryFailedDeploymentCount=3'',
         ''-Durl=https://r.example/m2'', ''-DpomFile=/repo/foo.pom'', ''-Dfile=/repo/foo.jar'',
         ''-Dfiles=foo.asc,foo-sources.jar'', ''-Dtypes=asc,jar'', ''-Dclassifiers=,sources'']
        ''/repo'' (Some [(''REMOTE_REPO_USERNAME'', ''user''), (''REMOTE_REPO_PASSWORD'', ''pass'')])]"
proof -
  let ?files = "[''foo.asc'', ''foo.jar'', ''foo.pom'', ''foo.pom.sha1'', ''foo-sources.jar'',
                 ''foobar.jar'']"
  have m: "mainArtifact_of ''/repo/foo.pom'' = ''/repo/foo.jar''" by code_simp
  have f: "folder_of ''/repo/foo.pom'' = ''/repo''" by code_simp
  have n: "basename_of ''/repo/foo.pom'' = ''foo''" by code_simp
  have x: "listed_extra_args ''foo'' ?files =
             [''-Dfiles=foo.asc,foo-sources.jar'', ''-Dtypes=asc,jar'', ''-Dclassifiers=,sources'']"
    by code_simp
  have h1: "existsSync world_ok (mainArtifact_of ''/repo/foo.pom'')"
    unfolding m by (simp add: world_ok_def sample_world_def)
  have h2: "readdirSync world_ok (folder_of ''/repo/foo.pom'') = Inr ?files"
    by (simp add: world_ok_def sample_world_def)
  from deploy_invocation_arguments [OF h1 h2]
  have "filter is_exec_mvn
     (fst (deploy_family_part001 world_ok ''https://r.example/m2'' ''user'' ''pass''
             ''/tmp/maven-settings.xml'' ''/repo/foo.pom'')) =
           [Exec_mvn
              ([''--batch-mode'', ''--color'', ''always'',
                ''-Dorg.slf4j.simpleLogger.showDateTime=true'',
                ''-Dorg.slf4j.simpleLogger.dateTimeFormat=HH:mm:ss,SSS'',
                ''--settings'', ''/tmp/maven-settings.xml'',
                ''org.apache.maven.plugins:maven-deploy-plugin:deploy-file'',
                ''-Daether.checksums.algorithms=MD5,SHA-1,SHA-256,SHA-512'',
                ''-DretryFailedDeploymentCount=3'',
                ''-Durl='' @ ''https://r.example/m2'', ''-DpomFile='' @ ''/repo/foo.pom'',
                ''-Dfile='' @ mainArtifact_of ''/repo/foo.pom''] @
               listed_extra_args (basename_of ''/repo/foo.pom'') ?files)
              (folder_of ''/repo/foo.pom'') (Some (credentials_env ''user'' ''pass''))]"
    by blast
  then show ?thesis
    using h1 h2 unfolding m f n x by (simp add: credentials_env_def)
qed

text \<open>
  The claim as the specification words it, a batch flag in every invocation, fails for
  \<open>src/index.ts\<close>: its command starts with \<open>-s\<close> and holds neither \<open>--batch-mode\<close> nor
  \<open>-B\<close>.
\<close>

theorem index_has_no_batch_flag_counterexample:
  "filter is_exec_mvn (main_index world_ok) =
     [Exec_mvn
        [''-s'', ''/tmp/maven-settings.xml'',
         ''org.apache.maven.plugins:maven-deploy-plugin:deploy-file'',
         ''-Daether.checksums.algorithms=MD5,SHA-1,SHA-256,SHA-512'',
         ''-DretryFailedDeploymentCount=3'',
         ''-Durl=https://r.example/m2'', ''-DpomFile=/repo/foo.pom'', ''-Dfile=/repo/foo.jar'',
         ''-Dfiles=foo.asc,foo-sources.jar'', ''-Dtypes=asc,jar'', ''-Dclassifiers=,sources'']
        ''/repo'' None] \<and>
   ''--batch-mode'' \<notin> set
        [''-s'', ''/tmp/maven-settings.xml'',
         ''org.apache.maven.plugins:maven-deploy-plugin:deploy-file'',
         ''-Daether.checksums.algorithms=MD5,SHA-1,SHA-256,SHA-512'',
         ''-DretryFailedDeploymentCount=3'',
         ''-Durl=https://r.example/m2'', ''-DpomFile=/repo/foo.pom'', ''-Dfile=/repo/foo.jar'',
         ''-Dfiles=foo.asc,foo-sources.jar'', ''-Dtypes=asc,jar'', ''-Dclassifiers=,sources''] \<and>
   ''-B'' \<notin> set
        [''-s'', ''/tmp/maven-settings.xml'',
         ''org.apache.maven.plugins:maven-deploy-plugin:deploy-file'',
         ''-Daether.checksums.algorithms=MD5,SHA-1,SHA-256,SHA-512'',
         ''-DretryFailedDeploymentCount=3'',
         ''-Durl=https://r.example/m2'', ''-DpomFile=/repo/foo.pom'', ''-Dfile=/repo/foo.jar'',
         ''-Dfiles=foo.asc,foo-sources.jar'', ''-Dtypes=asc,jar'', ''-Dclassifiers=,sources'']"
proof -
  have 1: "filter is_exec_mvn (main_index world_ok) =
     [Exec_mvn
        [''-s'', ''/tmp/maven-settings.xml'',
         ''org.apache.maven.plugins:maven-deploy-plugin:deploy-file'',
         ''-Daether.checksums.algorithms=MD5,SHA-1,SHA-256,SHA-512'',
         ''-DretryFailedDeploymentCount=3'',
         ''-Durl=https://r.example/m2'', ''-DpomFile=/repo/foo.pom'', ''-Dfile=/repo/foo.jar'',
         ''-Dfiles=foo.asc,foo-sources.jar'', ''-Dtypes=asc,jar'', ''-Dclassifiers=,sources'']
        ''/repo'' None]"
    by code_simp
  show ?thesis unfolding 1 by simp
qed

section \<open>A deploy that fails\<close>

lemma catch_no_signature:
  "\<not> (str_includes stderr signature_400 \<or> str_includes stdout signature_400) \<Longrightarrow>
   deploy_catch_part001 w url u p pomFile stdout stderr error = ([], Inl error)"
  by (simp add: deploy_catch_part001_def throw_def)

lemma catch_probe:
  assumes "str_includes stderr signature_400 \<or> str_includes stdout signature_400"
      and "readFileSync w pomFile = Inr content"
      and "match_between ''<groupId>'' ''</groupId>'' content = Some g"
      and "match_between ''<artifactId>'' ''</artifactId>'' content = Some a"
      and "match_between ''<version>'' ''</version>'' content = Some v"
  shows "deploy_catch_part001 w url u p pomFile stdout stderr error =
     (fst (artifactExists w g a v url u p) @
        (if snd (artifactExists w g a v url u p) = Inr True
         then [Warning ''Artifact already exists in the repository''] else []),
      Inr ())"
proof -
  obtain t b where ae: "artifactExists w g a v url u p = (t, Inr b)"
    using probe_value [of w g a v url u p] by (metis prod.collapse)
  show ?thesis
    using assms
    by (simp add: deploy_catch_part001_def Let_def lift_def bind_r_def ae emit_def ret_def)
qed

lemma catch_without_coordinates:
  assumes "str_includes stderr signature_400 \<or> str_includes stdout signature_400"
      and "readFileSync w pomFile = Inr content"
      and "match_between ''<groupId>'' ''</groupId>'' content = None \<or>
           match_between ''<artifactId>'' ''</artifactId>'' content = None \<or>
           match_between ''<version>'' ''</version>'' content = None"
  shows "fst (deploy_catch_part001 w url u p pomFile stdout stderr error) = []"
  using assms
  by (auto simp add: deploy_catch_part001_def Let_def lift_def bind_r_def ret_def
        split: option.splits)

lemma probe_one_get:
  "filter is_http_get (fst (artifactExists w g a v url u p)) =
     [Http_get (url @ ''/'' @ artifactPath_of g a v) (authorization u p)]"
  by (simp add: probe_events is_http_get_def split: http_outcome.splits)

text \<open>
  C1, as the code has it by design. Take a descriptor whose main artifact exists, whose
  folder can be listed, and whose \<open>mvn\<close> call fails with the value \<open>error\<close>.

  If neither captured stream contains \<open>status: 400 Bad Request\<close>, the loop stops at this
  descriptor with \<open>error\<close> thrown; no later descriptor is touched, and the \<open>catch\<close> of
  \<open>main\<close> reports the message of an \<open>Error\<close> with \<open>setFailed\<close>.

  If a stream contains the signature, the descriptor can be read, and it yields a group
  id, an artifact id and a version, the probe is attempted: the body issues its one GET.
  If the probe then returns true, the body logs the warning that the artifact already
  exists, ends normally, and the loop goes on with the descriptors that follow.

  If a stream contains the signature and the descriptor can be read but lacks one of the
  three coordinates, the probe is not attempted: the body issues no GET.
\<close>

theorem failed_deploy_handling:
  assumes "existsSync w (mainArtifact_of pomFile)"
      and "readdirSync w (folder_of pomFile) = Inr files"
      and "exec_mvn w (cmd_part001 s url pomFile (mainArtifact_of pomFile) @
                       listed_extra_args (basename_of pomFile) files) (folder_of pomFile) = out"
      and "out_failure out = Some error"
  shows
    "(\<not> (str_includes (out_stderr out) signature_400 \<or>
          str_includes (out_stdout out) signature_400) \<longrightarrow>
        for_each (deploy_family_part001 w url u p s) (pomFile # rest) =
          ([Exec_mvn (cmd_part001 s url pomFile (mainArtifact_of pomFile) @
                      listed_extra_args (basename_of pomFile) files) (folder_of pomFile)
              (Some (credentials_env u p))],
           Inl error) \<and>
        catch_main (for_each (deploy_family_part001 w url u p s) (pomFile # rest)) =
          Exec_mvn (cmd_part001 s url pomFile (mainArtifact_of pomFile) @
                    listed_extra_args (basename_of pomFile) files) (folder_of pomFile)
            (Some (credentials_env u p)) #
          (case error of Error_obj msg \<Rightarrow> [Set_failed msg] | Other_value \<Rightarrow> [])) \<and>
     ((str_includes (out_stderr out) signature_400 \<or>
       str_includes (out_stdout out) signature_400) \<and>
      readFileSync w pomFile = Inr content \<and>
      match_between ''<groupId>'' ''</groupId>'' content = Some g \<and>
      match_between ''<artifactId>'' ''</artifactId>'' content = Some a \<and>
      match_between ''<version>'' ''</version>'' content = Some v \<longrightarrow>
        filter is_http_get (fst (deploy_family_part001 w url u p s pomFile)) =
          [Http_get (url @ ''/'' @ artifactPath_of g a v) (authorization u p)] \<and>
        (snd (artifactExists w g a v url u p) = Inr True \<longrightarrow>
           for_each (deploy_family_part001 w url u p s) (pomFile # rest) =
             (Exec_mvn (cmd_part001 s url pomFile (mainArtifact_of pomFile) @
                        listed_extra_args (basename_of pomFile) files) (folder_of pomFile)
                (Some (credentials_env u p)) #
              fst (artifactExists w g a v url u p) @
              [Warning ''Artifact already exists in the repository''] @
              fst (for_each (deploy_family_part001 w url u p s) rest),
              snd (for_each (deploy_family_part001 w url u p s) rest)))) \<and>
     ((str_includes (out_stderr out) signature_400 \<or>
       str_includes (out_stdout out) signature_400) \<and>
      readFileSync w pomFile = Inr content \<and>
      (match_between ''<groupId>'' ''</groupId>'' content = None \<or>
       match_between ''<artifactId>'' ''</artifactId>'' content = None \<or>
       match_between ''<version>'' ''</version>'' content = None) \<longrightarrow>
        filter is_http_get (fst (deploy_family_part001 w url u p s pomFile)) = [])"
proof (intro conjI impI)
  let ?call = "Exec_mvn (cmd_part001 s url pomFile (mainArtifact_of pomFile) @
                         listed_extra_args (basename_of pomFile) files) (folder_of pomFile)
                 (Some (credentials_env u p))"
  note fam = family_part001_present [OF assms(1) assms(2) assms(3)]
  {
    assume n: "\<not> (str_includes (out_stderr out) signature_400 \<or>
                  str_includes (out_stdout out) signature_400)"
    have body: "deploy_family_part001 w url u p s pomFile = ([?call], Inl error)"
      by (simp add: fam assms(4) catch_no_signature [OF n])
    show l: "for_each (deploy_family_part001 w url u p s) (pomFile # rest) =
               ([?call], Inl error)"
      using body by (rule for_each_abort)
    show "catch_main (for_each (deploy_family_part001 w url u p s) (pomFile # rest)) =
            ?call # (case error of Error_obj msg \<Rightarrow> [Set_failed msg] | Other_value \<Rightarrow> [])"
      unfolding l by (simp add: catch_main_def split: thrown.splits)
  }
  {
    assume y: "(str_includes (out_stderr out) signature_400 \<or>
                str_includes (out_stdout out) signature_400) \<and>
               readFileSync w pomFile = Inr content \<and>
               match_between ''<groupId>'' ''</groupId>'' content = Some g \<and>
               match_between ''<artifactId>'' ''</artifactId>'' content = Some a \<and>
               match_between ''<version>'' ''</version>'' content = Some v"
    have c: "deploy_catch_part001 w url u p pomFile (out_stdout out) (out_stderr out) error =
               (fst (artifactExists w g a v url u p) @
                  (if snd (artifactExists w g a v url u p) = Inr True
                   then [Warning ''Artifact already exists in the repository''] else []),
                Inr ())"
    proof (rule catch_probe)
      show "str_includes (out_stderr out) signature_400 \<or>
            str_includes (out_stdout out) signature_400" using y by blast
      show "readFileSync w pomFile = Inr content" using y by blast
      show "match_between ''<groupId>'' ''</groupId>'' content = Some g" using y by blast
      show "match_between ''<artifactId>'' ''</artifactId>'' content = Some a" using y by blast
      show "match_between ''<version>'' ''</version>'' content = Some v" using y by blast
    qed
    have body: "deploy_family_part001 w url u p s pomFile =
                  (?call # fst (artifactExists w g a v url u p) @
                     (if snd (artifactExists w g a v url u p) = Inr True
                      then [Warning ''Artifact already exists in the repository''] else []),
                   Inr ())"
      by (simp add: fam assms(4) c)
    show "filter is_http_get (fst (deploy_family_part001 w url u p s pomFile)) =
            [Http_get (url @ ''/'' @ artifactPath_of g a v) (authorization u p)]"
      unfolding body by (simp add: probe_one_get) (simp add: is_http_get_def)
    {
      assume t: "snd (artifactExists w g a v url u p) = Inr True"
      have body2: "deploy_family_part001 w url u p s pomFile =
                  (?call # fst (artifactExists w g a v url u p) @
                     [Warning ''Artifact already exists in the repository''],
                   Inr ())"
        unfolding body using t by simp
      show "for_each (deploy_family_part001 w url u p s) (pomFile # rest) =
              (?call # fst (artifactExists w g a v url u p) @
               [Warning ''Artifact already exists in the repository''] @
               fst (for_each (deploy_family_part001 w url u p s) rest),
               snd (for_each (deploy_family_part001 w url u p s) rest))"
        using for_each_continue [of "deploy_family_part001 w url u p s", OF body2, of rest]
        by simp
    }
  }
  {
    assume z: "(str_includes (out_stderr out) signature_400 \<or>
                str_includes (out_stdout out) signature_400) \<and>
               readFileSync w pomFile = Inr content \<and>
               (match_between ''<groupId>'' ''</groupId>'' content = None \<or>
                match_between ''<artifactId>'' ''</artifactId>'' content = None \<or>
                match_between ''<version>'' ''</version>'' content = None)"
    have "fst (deploy_catch_part001 w url u p pomFile (out_stdout out) (out_stderr out) error)
            = []"
    proof (rule catch_without_coordinates)
      show "str_includes (out_stderr out) signature_400 \<or>
            str_includes (out_stdout out) signature_400" using z by blast
      show "readFileSync w pomFile = Inr content" using z by blast
      show "match_between ''<groupId>'' ''</groupId>'' content = None \<or>
            match_between ''<artifactId>'' ''</artifactId>'' content = None \<or>
            match_between ''<version>'' ''</version>'' content = None"
        by (rule conjunct2 [OF conjunct2 [OF z]])
    qed
    then show "filter is_http_get (fst (deploy_family_part001 w url u p s pomFile)) = []"
      by (simp add: fam assms(4)) (simp add: is_http_get_def)
  }
qed

theorem failed_deploy_handling_witness:
  "existsSync world_broken (mainArtifact_of ''/repo/foo.pom'') \<and>
   out_failure mvn_broken = Some (Error_obj ''The process mvn failed with exit code 1'') \<and>
   str_includes (out_stderr mvn_broken) signature_400 = False \<and>
   str_includes (out_stdout mvn_broken) signature_400 = False \<and>
   sample_loop_part001 world_broken =
     ([sample_invocation_part001],
      Inl (Error_obj ''The process mvn failed with exit code 1'')) \<and>
   str_includes (out_stdout mvn_rejected_400) signature_400 \<and>
   match_between ''<groupId>'' ''</groupId>'' sample_pom = Some ''com.example'' \<and>
   match_between ''<artifactId>'' ''</artifactId>'' sample_pom = Some ''foo'' \<and>
   match_between ''<version>'' ''</version>'' sample_pom = Some ''1.0'' \<and>
   snd (artifactExists world_400_present ''com.example'' ''foo'' ''1.0''
          ''https://r.example/m2'' ''user'' ''pass'') = Inr True \<and>
   sample_loop_part001 world_400_present =
     ([sample_invocation_part001,
       Info ''Checking existence of artifact: https://r.example/m2/com/example/foo/1.0/foo-1.0.jar'',
       Http_get ''https://r.example/m2/com/example/foo/1.0/foo-1.0.jar''
         [(''Authorization'', ''Basic dXNlcjpwYXNz'')],
       Info ''Artifact exists: https://r.example/m2/com/example/foo/1.0/foo-1.0.jar'',
       Warning ''Artifact already exists in the repository'',
       Warning ''Main artifact not found: /repo/bar.jar''],
      Inr ())"
proof -
  let ?files = "[''foo.asc'', ''foo.jar'', ''foo.pom'', ''foo.pom.sha1'', ''foo-sources.jar'',
                 ''foobar.jar'']"
  let ?call = "Exec_mvn (cmd_part001 ''/tmp/maven-settings.xml'' ''https://r.example/m2''
                           ''/repo/foo.pom'' (mainArtifact_of ''/repo/foo.pom'') @
                         listed_extra_args (basename_of ''/repo/foo.pom'') ?files)
                 (folder_of ''/repo/foo.pom'') (Some (credentials_env ''user'' ''pass''))"
  let ?e = "Error_obj ''The process mvn failed with exit code 1''"
  have m: "mainArtifact_of ''/repo/foo.pom'' = ''/repo/foo.jar''" by code_simp
  have call: "?call = sample_invocation_part001" by code_simp

  have b1: "existsSync world_broken (mainArtifact_of ''/repo/foo.pom'')"
    unfolding m by (simp add: world_broken_def sample_world_def)
  have b2: "readdirSync world_broken (folder_of ''/repo/foo.pom'') = Inr ?files"
    by (simp add: world_broken_def sample_world_def)
  have b3: "exec_mvn world_broken
              (cmd_part001 ''/tmp/maven-settings.xml'' ''https://r.example/m2''
                 ''/repo/foo.pom'' (mainArtifact_of ''/repo/foo.pom'') @
               listed_extra_args (basename_of ''/repo/foo.pom'') ?files)
              (folder_of ''/repo/foo.pom'') = mvn_broken"
    by (simp add: world_broken_def sample_world_def)
  have b4: "out_failure mvn_broken = Some ?e" by (simp add: mvn_broken_def)
  have b5: "str_includes (out_stderr mvn_broken) signature_400 = False" by code_simp
  have b6: "str_includes (out_stdout mvn_broken) signature_400 = False" by code_simp
  have b7: "\<not> (str_includes (out_stderr mvn_broken) signature_400 \<or>
               str_includes (out_stdout mvn_broken) signature_400)"
    using b5 b6 by simp
  have "for_each (deploy_family_part001 world_broken ''https://r.example/m2'' ''user'' ''pass''
                    ''/tmp/maven-settings.xml'') (''/repo/foo.pom'' # [''/repo/bar.pom'']) =
          ([?call], Inl ?e)"
    using failed_deploy_handling [OF b1 b2 b3 b4, where u = "''user''" and p = "''pass''"
            and rest = "[''/repo/bar.pom'']"]
          b7
    by blast
  then have broken: "sample_loop_part001 world_broken = ([sample_invocation_part001], Inl ?e)"
    unfolding sample_loop_part001_def call .

  have p1: "existsSync world_400_present (mainArtifact_of ''/repo/foo.pom'')"
    unfolding m by (simp add: world_400_present_def sample_world_def)
  have p2: "readdirSync world_400_present (folder_of ''/repo/foo.pom'') = Inr ?files"
    by (simp add: world_400_present_def sample_world_def)
  have p3: "exec_mvn world_400_present
              (cmd_part001 ''/tmp/maven-settings.xml'' ''https://r.example/m2''
                 ''/repo/foo.pom'' (mainArtifact_of ''/repo/foo.pom'') @
               listed_extra_args (basename_of ''/repo/foo.pom'') ?files)
              (folder_of ''/repo/foo.pom'') = mvn_rejected_400"
    by (simp add: world_400_present_def sample_world_def)
  have p4: "out_failure mvn_rejected_400 = Some ?e" by (simp add: mvn_rejected_400_def)
  have p5: "str_includes (out_stdout mvn_rejected_400) signature_400" by code_simp
  have p6: "readFileSync world_400_present ''/repo/foo.pom'' = Inr sample_pom"
    by (simp add: world_400_present_def sample_world_def)
  have g: "match_between ''<groupId>'' ''</groupId>'' sample_pom = Some ''com.example''"
    by code_simp
  have a: "match_between ''<artifactId>'' ''</artifactId>'' sample_pom = Some ''foo''"
    by code_simp
  have v: "match_between ''<version>'' ''</version>'' sample_pom = Some ''1.0''"
    by code_simp
  have found: "snd (artifactExists world_400_present ''com.example'' ''foo'' ''1.0''
                      ''https://r.example/m2'' ''user'' ''pass'') = Inr True"
    by code_simp
  have probe: "fst (artifactExists world_400_present ''com.example'' ''foo'' ''1.0''
                      ''https://r.example/m2'' ''user'' ''pass'') =
      [Info ''Checking existence of artifact: https://r.example/m2/com/example/foo/1.0/foo-1.0.jar'',
       Http_get ''https://r.example/m2/com/example/foo/1.0/foo-1.0.jar''
         [(''Authorization'', ''Basic dXNlcjpwYXNz'')],
       Info ''Artifact exists: https://r.example/m2/com/example/foo/1.0/foo-1.0.jar'']"
    by code_simp
  have next_family:
    "for_each (deploy_family_part001 world_400_present ''https://r.example/m2'' ''user''
                 ''pass'' ''/tmp/maven-settings.xml'') [''/repo/bar.pom''] =
       ([Warning ''Main artifact not found: /repo/bar.jar''], Inr ())"
    by code_simp
  have "for_each (deploy_family_part001 world_400_present ''https://r.example/m2'' ''user''
                    ''pass'' ''/tmp/maven-settings.xml'') (''/repo/foo.pom'' # [''/repo/bar.pom'']) =
          (?call #
           fst (artifactExists world_400_present ''com.example'' ''foo'' ''1.0''
                  ''https://r.example/m2'' ''user'' ''pass'') @
           [Warning ''Artifact already exists in the repository''] @
           fst (for_each (deploy_family_part001 world_400_present ''https://r.example/m2''
                            ''user'' ''pass'' ''/tmp/maven-settings.xml'') [''/repo/bar.pom'']),
           snd (for_each (deploy_family_part001 world_400_present ''https://r.example/m2''
                            ''user'' ''pass'' ''/tmp/maven-settings.xml'') [''/repo/bar.pom'']))"
    using failed_deploy_handling [OF p1 p2 p3 p4, where content = sample_pom
            and g = "''com.example''" and a = "''foo''" and v = "''1.0''"
            and u = "''user''" and p = "''pass''" and rest = "[''/repo/bar.pom'']"]
          p5 p6 g a v found
    by blast
  then have present: "sample_loop_part001 world_400_present =
     ([sample_invocation_part001,
       Info ''Checking existence of artifact: https://r.example/m2/com/example/foo/1.0/foo-1.0.jar'',
       Http_get ''https://r.example/m2/com/example/foo/1.0/foo-1.0.jar''
         [(''Authorization'', ''Basic dXNlcjpwYXNz'')],
       Info ''Artifact exists: https://r.example/m2/com/example/foo/1.0/foo-1.0.jar'',
       Warning ''Artifact already exists in the repository'',
       Warning ''Main artifact not found: /repo/bar.jar''],
      Inr ())"
    unfolding sample_loop_part001_def call probe next_family by simp
  show ?thesis
    using b1 b4 b5 b6 broken p5 g a v found present by blast
qed

text \<open>
  The claim as the specification words it fails at two inputs, both with a failed
  \<open>mvn\<close> whose output contains the signature. With a descriptor that names no
  coordinates the probe is not attempted: the run issues no GET. With a repository that
  answers 404 the probe returns false, and still nothing is thrown: the loop goes on to
  the next descriptor, the cache is saved, and \<open>setFailed\<close> is never called.
\<close>

theorem failed_deploy_counterexample:
  "out_failure mvn_rejected_400 = Some (Error_obj ''The process mvn failed with exit code 1'') \<and>
   str_includes (out_stdout mvn_rejected_400) signature_400 \<and>
   filter is_exec_mvn (main_part001 world_400_no_coordinates) = [sample_invocation_part001] \<and>
   filter is_http_get (main_part001 world_400_no_coordinates) = [] \<and>
   snd (artifactExists world_400_absent ''com.example'' ''foo'' ''1.0''
          ''https://r.example/m2'' ''user'' ''pass'') = Inr False \<and>
   sample_loop_part001 world_400_absent =
     ([sample_invocation_part001,
       Info ''Checking existence of artifact: https://r.example/m2/com/example/foo/1.0/foo-1.0.jar'',
       Http_get ''https://r.example/m2/com/example/foo/1.0/foo-1.0.jar''
         [(''Authorization'', ''Basic dXNlcjpwYXNz'')],
       Info ''Artifact does not exist: https://r.example/m2/com/example/foo/1.0/foo-1.0.jar'',
       Warning ''Main artifact not found: /repo/bar.jar''],
      Inr ()) \<and>
   filter is_set_failed (main_part001 world_400_absent) = [] \<and>
   filter is_cache_call (main_part001 world_400_absent) =
     [Restore_cache [''/home/u/.m2/repository''] ''maven-publish-Linux'',
      Save_cache [''/home/u/.m2/repository''] ''maven-publish-Linux'']"
proof -
  have 1: "out_failure mvn_rejected_400 =
             Some (Error_obj ''The process mvn failed with exit code 1'')"
    by (simp add: mvn_rejected_400_def)
  have 2: "str_includes (out_stdout mvn_rejected_400) signature_400" by code_simp
  have 3: "filter is_exec_mvn (main_part001 world_400_no_coordinates) =
             [sample_invocation_part001]"
    by code_simp
  have 4: "filter is_http_get (main_part001 world_400_no_coordinates) = []" by code_simp
  have 5: "snd (artifactExists world_400_absent ''com.example'' ''foo'' ''1.0''
          ''https://r.example/m2'' ''user'' ''pass'') = Inr False"
    by code_simp
  have 6: "sample_loop_part001 world_400_absent =
     ([sample_invocation_part001,
       Info ''Checking existence of artifact: https://r.example/m2/com/example/foo/1.0/foo-1.0.jar'',
       Http_get ''https://r.example/m2/com/example/foo/1.0/foo-1.0.jar''
         [(''Authorization'', ''Basic dXNlcjpwYXNz'')],
       Info ''Artifact does not exist: https://r.example/m2/com/example/foo/1.0/foo-1.0.jar'',
       Warning ''Main artifact not found: /repo/bar.jar''],
      Inr ())"
    by code_simp
  have 7: "filter is_set_failed (main_part001 world_400_absent) = []" by code_simp
  have 8: "filter is_cache_call (main_part001 world_400_absent) =
     [Restore_cache [''/home/u/.m2/repository''] ''maven-publish-Linux'',
      Save_cache [''/home/u/.m2/repository''] ''maven-publish-Linux'']"
    by code_simp
  show ?thesis using 1 2 3 4 5 6 7 8 by blast
qed

end
